theory Spec2Isabelle
  imports Main "HOL-Library.Word"
begin

section \<open>ASDF embedded in FITS: the block manager and the embedded file\<close>

text \<open>
  A shallow embedding of \<^verbatim>\<open>pyasdf/fits_embed.py\<close>: the wrapper block
  \<^verbatim>\<open>_FitsBlock\<close>, the block manager \<^verbatim>\<open>_EmbeddedBlockManager\<close> and the
  embedded file \<^verbatim>\<open>AsdfInFits\<close>.

  Python objects have an identity that \<^verbatim>\<open>is\<close> compares. Every object whose
  identity the code compares carries it as a field (\<open>hdu_id\<close>, \<open>arr_id\<close>,
  \<open>fb_id\<close>); constructing an object takes the next free identity from the counter
  \<open>next_id\<close> of the state. An exception is a value of type \<open>error\<close>; a method
  returns its outcome together with the state it leaves behind, so that what an
  exception leaves behind is visible.
\<close>

subsection \<open>Data\<close>

type_synonym byte = "8 word"

datatype error =
    KeyError
  | IndexError
  | AttributeError
  | ValueError string
  | NotImplementedError string
  | AddressError

text \<open>A source identifier: an integer or a string.\<close>

datatype source = IntSource int | StrSource string

text \<open>
  Modelled from the spec: \<^verbatim>\<open>util.get_array_base\<close> is not among the sources. A
  numpy array object has its identity and its bytes; \<open>arr_base\<close> is the identity
  that the spec's Buffer Identity Resolver \<^verbatim>\<open>base_of(array) -> identity\<close> gives
  for it, the identity of the array that owns the underlying buffer. An array that
  owns its buffer is its own base; a view of another array has the base of that array.
\<close>

record ndarray =
  arr_id :: nat
  arr_base :: nat
  arr_bytes :: "byte list"

text \<open>A section of the host container (a FITS header-data unit).\<close>

record hdu =
  hdu_id :: nat
  hdu_name :: string
  hdu_ver :: int
  hdu_data :: ndarray

text \<open>
  \<^verbatim>\<open>class _FitsBlock\<close>: a wrapper object around one section. The field
  \<^verbatim>\<open>_hdu\<close> refers to the section object; here it is the section as it is when the
  block is made, its identity included, and \<^verbatim>\<open>hdu is block._hdu\<close> compares the
  identities.
\<close>

record fits_block =
  fb_id :: nat
  fb_hdu :: hdu

text \<open>
  A block is a \<^verbatim>\<open>_FitsBlock\<close> or a block of the base manager
  (\<^verbatim>\<open>isinstance(block, _FitsBlock)\<close> tells them apart).
\<close>

datatype 'b block = FitsBlock fits_block | BaseBlock 'b

text \<open>
  Modelled from the spec: \<^verbatim>\<open>util.get_array_base\<close> is not among the sources. The
  spec's Buffer Identity Resolver \<^verbatim>\<open>base_of(array) -> identity\<close> returns the
  identity of the underlying storage buffer; here it is the field \<open>av_base\<close> of the
  array handed to \<^verbatim>\<open>find_or_create_block_for_array\<close>, the identity of the array
  object that \<^verbatim>\<open>util.get_array_base(arr)\<close> returns. The other field tells whether
  the array is an instance of \<^verbatim>\<open>ndarray.NDArrayType\<close>.
\<close>

record array_value =
  av_is_NDArrayType :: bool
  av_base :: nat

text \<open>
  The state: the host container \<^verbatim>\<open>_hdulist\<close> (one list object, shared by the file
  and its block manager), the identity counter, and the state of the base classes
  \<^verbatim>\<open>asdf.AsdfFile\<close> and \<^verbatim>\<open>block.BlockManager\<close>, which are not among the sources
  and stay a type parameter.
\<close>

record 's asdf_in_fits =
  hdulist :: "hdu list"
  next_id :: nat
  super_state :: 's

subsection \<open>The host container\<close>

text \<open>The key of \<^verbatim>\<open>hdulist[key]\<close>: a name, or a pair of a name and a version.\<close>

datatype key = NameKey string | NameVerKey string int

fun key_matches :: "key \<Rightarrow> hdu \<Rightarrow> bool" where
  "key_matches (NameKey n) h = (hdu_name h = n)"
| "key_matches (NameVerKey n v) h = (hdu_name h = n \<and> hdu_ver h = v)"

text \<open>
  Modelled from the spec: the lookup \<^verbatim>\<open>hdulist[key]\<close> belongs to the host container
  (astropy), not to this repository. The spec: look up the host section by name (and
  version, defaulting to "first match" if omitted). A key that no section matches
  raises \<^verbatim>\<open>KeyError\<close>.
\<close>

definition hdulist_getitem :: "hdu list \<Rightarrow> key \<Rightarrow> error + hdu" where
  "hdulist_getitem hl k =
     (case find (key_matches k) hl of None \<Rightarrow> Inl KeyError | Some h \<Rightarrow> Inr h)"

subsection \<open>Strings: the pattern of \<^verbatim>\<open>get_block\<close>, \<^verbatim>\<open>int\<close> and \<^verbatim>\<open>format\<close>\<close>

text \<open>The character classes \<^verbatim>\<open>[0-9]\<close> and \<^verbatim>\<open>[A-Z0-9]\<close>, as ranges of code points.\<close>

definition is_digit :: "char \<Rightarrow> bool" where
  "is_digit c = (48 \<le> (of_char c :: nat) \<and> (of_char c :: nat) \<le> 57)"

definition is_name_char :: "char \<Rightarrow> bool" where
  "is_name_char c = ((65 \<le> (of_char c :: nat) \<and> (of_char c :: nat) \<le> 90) \<or> is_digit c)"

text \<open>
  \<^verbatim>\<open>re.match('(?P<name>[A-Z0-9]+)(,(?P<ver>[0-9]+))?', s)\<close>: the match is anchored at
  the start of \<open>s\<close> only. The name is the longest run of name characters, which must
  not be empty; the version group matches when a comma and at least one digit follow,
  and is then the longest run of digits. The result is the pair of the two groups.
\<close>

definition re_match_parts :: "string \<Rightarrow> (string \<times> string option) option" where
  "re_match_parts s =
     (let name = takeWhile is_name_char s; rest = dropWhile is_name_char s in
      if name = [] then None
      else (case rest of
              [] \<Rightarrow> Some (name, None)
            | c # t \<Rightarrow>
                (let ver = takeWhile is_digit t in
                 if c = CHR '','' \<and> ver \<noteq> [] then Some (name, Some ver)
                 else Some (name, None))))"

definition digit_val :: "char \<Rightarrow> nat" where
  "digit_val c = of_char c - 48"

definition digit_char :: "nat \<Rightarrow> char" where
  "digit_char n = char_of (48 + n)"

text \<open>\<^verbatim>\<open>int(s)\<close> on a string of decimal digits.\<close>

definition int_of_digits :: "string \<Rightarrow> int" where
  "int_of_digits s = int (foldl (\<lambda>a c. 10 * a + digit_val c) 0 s)"

text \<open>The decimal text of an integer, as \<^verbatim>\<open>format\<close> writes it.\<close>

fun str_of_nat :: "nat \<Rightarrow> string" where
  "str_of_nat n =
     (if n < 10 then [digit_char n] else str_of_nat (n div 10) @ [digit_char (n mod 10)])"

declare str_of_nat.simps [simp del]

definition str_of_int :: "int \<Rightarrow> string" where
  "str_of_int i = (if i < 0 then CHR ''-'' # str_of_nat (nat (- i)) else str_of_nat (nat i))"

definition startswith :: "string \<Rightarrow> string \<Rightarrow> bool" where
  "startswith s p = (take (length p) s = p)"

subsection \<open>\<^verbatim>\<open>_EmbeddedBlockManager\<close>\<close>

text \<open>
  A call of a method of the base class: it runs on the state of the base class and
  leaves the host container alone. The methods of the base class are parameters of the
  methods below (\<open>super_get_block\<close> and so on).
\<close>

definition call_super ::
  "('s \<Rightarrow> (error + 'a) \<times> 's) \<Rightarrow> 's asdf_in_fits \<Rightarrow> (error + 'a) \<times> 's asdf_in_fits" where
  "call_super m st = (case m (super_state st) of (r, s') \<Rightarrow> (r, st\<lparr>super_state := s'\<rparr>))"

text \<open>\<^verbatim>\<open>_FitsBlock(hdu)\<close>: a new wrapper object, with a new identity.\<close>

definition new_FitsBlock :: "hdu \<Rightarrow> 's asdf_in_fits \<Rightarrow> fits_block \<times> 's asdf_in_fits" where
  "new_FitsBlock h st = (\<lparr>fb_id = next_id st, fb_hdu = h\<rparr>, st\<lparr>next_id := Suc (next_id st)\<rparr>)"

definition get_block ::
  "(source \<Rightarrow> 's \<Rightarrow> (error + 'b) \<times> 's) \<Rightarrow> source \<Rightarrow> 's asdf_in_fits
     \<Rightarrow> (error + 'b block) \<times> 's asdf_in_fits" where
  "get_block super_get_block source st =
     (let delegate =
            (case call_super (super_get_block source) st of
               (r, st') \<Rightarrow> (map_sum id BaseBlock r, st'))
      in case source of
           StrSource s \<Rightarrow>
             if startswith s ''fits:'' then
               (case re_match_parts (drop 5 s) of
                  Some (name, ver) \<Rightarrow>
                    (let pair = (case ver of
                                   Some v \<Rightarrow> NameVerKey name (int_of_digits v)
                                 | None \<Rightarrow> NameKey name)
                     in case hdulist_getitem (hdulist st) pair of
                          Inl e \<Rightarrow> (Inl e, st)
                        | Inr h \<Rightarrow>
                            (case new_FitsBlock h st of (b, st') \<Rightarrow> (Inr (FitsBlock b), st')))
                | None \<Rightarrow> delegate)
             else delegate
         | IntSource i \<Rightarrow> delegate)"

definition get_source ::
  "('b \<Rightarrow> 's \<Rightarrow> (error + source) \<times> 's) \<Rightarrow> 'b block \<Rightarrow> 's asdf_in_fits
     \<Rightarrow> (error + source) \<times> 's asdf_in_fits" where
  "get_source super_get_source block st =
     (case block of
        FitsBlock b \<Rightarrow>
          (case find (\<lambda>h. hdu_id h = hdu_id (fb_hdu b)) (hdulist st) of
             Some h \<Rightarrow>
               (Inr (StrSource (''fits:'' @ hdu_name h @ '','' @ str_of_int (hdu_ver h))), st)
           | None \<Rightarrow> (Inl (ValueError ''FITS block seems to have been removed''), st))
      | BaseBlock b \<Rightarrow> call_super (super_get_source b) st)"

definition find_or_create_block_for_array ::
  "(array_value \<Rightarrow> 'c \<Rightarrow> 's \<Rightarrow> (error + 'b) \<times> 's) \<Rightarrow> array_value \<Rightarrow> 'c \<Rightarrow> 's asdf_in_fits
     \<Rightarrow> (error + 'b block) \<times> 's asdf_in_fits" where
  "find_or_create_block_for_array super_find_or_create arr ctx st =
     (let delegate =
            (case call_super (super_find_or_create arr ctx) st of
               (r, st') \<Rightarrow> (map_sum id BaseBlock r, st'))
      in if \<not> av_is_NDArrayType arr then
           (case find (\<lambda>h. av_base arr = arr_id (hdu_data h)) (hdulist st) of
              Some h \<Rightarrow> (case new_FitsBlock h st of (b, st') \<Rightarrow> (Inr (FitsBlock b), st'))
            | None \<Rightarrow> delegate)
         else delegate)"

subsection \<open>\<^verbatim>\<open>AsdfInFits\<close>\<close>

definition ASDF_EXTENSION_NAME :: string where
  "ASDF_EXTENSION_NAME = ''ASDF''"

text \<open>
  \<^verbatim>\<open>__init__(self, hdulist=None, tree=None, uri=None, extensions=None)\<close>: without
  a host container a new, empty one is made; tree, uri and extensions go to the
  constructor of the base class, \<open>super_init\<close>.
\<close>

definition AsdfInFits_init ::
  "('t option \<Rightarrow> string option \<Rightarrow> 'x option \<Rightarrow> 's) \<Rightarrow> hdu list option \<Rightarrow> 't option
     \<Rightarrow> string option \<Rightarrow> 'x option \<Rightarrow> nat \<Rightarrow> 's asdf_in_fits" where
  "AsdfInFits_init super_init hl tree uri extensions nid =
     \<lparr>hdulist = (case hl of None \<Rightarrow> [] | Some l \<Rightarrow> l),
      next_id = nid,
      super_state = super_init tree uri extensions\<rparr>"

text \<open>The exceptions that the two \<^verbatim>\<open>except\<close> clauses of this file catch.\<close>

definition caught :: "error \<Rightarrow> bool" where
  "caught e = (e = KeyError \<or> e = IndexError \<or> e = AttributeError)"

text \<open>
  \<^verbatim>\<open>read(cls, hdulist, uri=None, validate_checksums=False, extensions=None)\<close>.
  The decoder \<^verbatim>\<open>_read_impl\<close> of the base class is the parameter \<open>read_impl\<close>; it is
  given the new file, the bytes of the section, the uri and the checksum flag.
\<close>

definition read ::
  "('t option \<Rightarrow> string option \<Rightarrow> 'x option \<Rightarrow> 's)
     \<Rightarrow> ('s asdf_in_fits \<Rightarrow> byte list \<Rightarrow> string option \<Rightarrow> bool \<Rightarrow> error + 's asdf_in_fits)
     \<Rightarrow> hdu list \<Rightarrow> string option \<Rightarrow> bool \<Rightarrow> 'x option \<Rightarrow> nat \<Rightarrow> error + 's asdf_in_fits" where
  "read super_init read_impl hl uri validate_checksums extensions nid =
     (case hdulist_getitem hl (NameKey ASDF_EXTENSION_NAME) of
        Inl e \<Rightarrow>
          if caught e
          then Inr (AsdfInFits_init super_init (Some hl) None uri extensions nid)
          else Inl e
      | Inr asdf_extension \<Rightarrow>
          (let self = AsdfInFits_init super_init (Some hl) None None extensions nid;
               buff = arr_bytes (hdu_data asdf_extension)
           in read_impl self buff uri validate_checksums))"

record write_options =
  all_array_storage :: "string option"
  all_array_compression :: "string option"
  auto_inline :: "nat option"
  pad_blocks :: bool

text \<open>
  Modelled from the spec: the constructor \<^verbatim>\<open>fits.ImageHDU(array, name=...)\<close> belongs
  to the host container (astropy), not to this repository. The spec's host sections
  are named and versioned and hold a buffer: the new section has the given name and
  data, and the version 1 that astropy gives a section without one.
\<close>

definition ImageHDU :: "ndarray \<Rightarrow> string \<Rightarrow> nat \<Rightarrow> hdu" where
  "ImageHDU array name nid = \<lparr>hdu_id = nid, hdu_name = name, hdu_ver = 1, hdu_data = array\<rparr>"

text \<open>
  \<^verbatim>\<open>_update_asdf_extension\<close>. The writer of the base class, \<open>super_write_to\<close>, is
  given the options, the host container to read (it reaches it only through
  \<^verbatim>\<open>get_source\<close> and \<^verbatim>\<open>find_or_create_block_for_array\<close>, which do not change it)
  and the state of the base class; it returns the bytes it wrote to the new
  \<^verbatim>\<open>io.BytesIO\<close> buffer, or an exception. The array that \<^verbatim>\<open>np.frombuffer\<close> makes
  of them is a new object and its own base. \<^verbatim>\<open>asdf_extension.data = array\<close> assigns
  to the section object that the lookup returned.
\<close>

definition update_asdf_extension ::
  "(write_options \<Rightarrow> hdu list \<Rightarrow> 's \<Rightarrow> (error + byte list) \<times> 's) \<Rightarrow> write_options
     \<Rightarrow> 's asdf_in_fits \<Rightarrow> (error + unit) \<times> 's asdf_in_fits" where
  "update_asdf_extension super_write_to opts st =
     (case super_write_to opts (hdulist st) (super_state st) of
        (Inl e, s') \<Rightarrow> (Inl e, st\<lparr>super_state := s'\<rparr>)
      | (Inr buff, s') \<Rightarrow>
          (let array = \<lparr>arr_id = next_id st, arr_base = next_id st, arr_bytes = buff\<rparr>;
               st1 = st\<lparr>super_state := s', next_id := Suc (next_id st)\<rparr>
           in case hdulist_getitem (hdulist st1) (NameKey ASDF_EXTENSION_NAME) of
                Inl e \<Rightarrow>
                  if caught e
                  then (Inr (),
                        st1\<lparr>hdulist :=
                              hdulist st1 @ [ImageHDU array ASDF_EXTENSION_NAME (next_id st1)],
                            next_id := Suc (next_id st1)\<rparr>)
                  else (Inl e, st1)
              | Inr asdf_extension \<Rightarrow>
                  (Inr (),
                   st1\<lparr>hdulist :=
                         map (\<lambda>h. if hdu_id h = hdu_id asdf_extension
                                  then h\<lparr>hdu_data := array\<rparr> else h)
                             (hdulist st1)\<rparr>)))"

text \<open>
  \<^verbatim>\<open>write_to\<close>: the update, then \<^verbatim>\<open>self._hdulist.writeto(filename)\<close> of the host
  container, the parameter \<open>hdulist_writeto\<close>, which returns the exception it raises,
  if any.
\<close>

definition write_to ::
  "(write_options \<Rightarrow> hdu list \<Rightarrow> 's \<Rightarrow> (error + byte list) \<times> 's)
     \<Rightarrow> (hdu list \<Rightarrow> string \<Rightarrow> error option) \<Rightarrow> string \<Rightarrow> write_options
     \<Rightarrow> 's asdf_in_fits \<Rightarrow> (error + unit) \<times> 's asdf_in_fits" where
  "write_to super_write_to hdulist_writeto filename opts st =
     (case update_asdf_extension super_write_to opts st of
        (Inl e, st') \<Rightarrow> (Inl e, st')
      | (Inr u, st') \<Rightarrow>
          (case hdulist_writeto (hdulist st') filename of
             Some e \<Rightarrow> (Inl e, st')
           | None \<Rightarrow> (Inr (), st')))"

definition update ::
  "(write_options \<Rightarrow> hdu list \<Rightarrow> 's \<Rightarrow> (error + byte list) \<times> 's) \<Rightarrow> write_options
     \<Rightarrow> 's asdf_in_fits \<Rightarrow> (error + unit) \<times> 's asdf_in_fits" where
  "update super_write_to opts st = update_asdf_extension super_write_to opts st"

definition write_to_stream :: "'d \<Rightarrow> 's asdf_in_fits \<Rightarrow> (error + unit) \<times> 's asdf_in_fits" where
  "write_to_stream data st =
     (Inl (NotImplementedError ''Can not stream data to an ASDF file embedded in a FITS file''),
      st)"

subsection \<open>The base registry\<close>

text \<open>
  Modelled from the spec: \<^verbatim>\<open>block.BlockManager\<close>, the base class, is not among the
  sources. The spec's Block Registry is an ordered sequence of blocks, each bound to
  the identity of the buffer it stores. Only that identity is kept of a block here.
\<close>

record internal_block =
  ib_buffer :: nat

type_synonym registry = "internal_block list"

text \<open>
  Modelled from the spec: \<^verbatim>\<open>resolve(source)\<close> of the base registry. An integer source
  indexes directly into the ordered sequence (bounds-checked, fails with an
  AddressError on out-of-range); a string source falls back to integer parsing.
\<close>

definition registry_index :: "int \<Rightarrow> registry \<Rightarrow> error + internal_block" where
  "registry_index i reg =
     (if 0 \<le> i \<and> i < int (length reg) then Inr (reg ! nat i) else Inl AddressError)"

definition registry_resolve ::
  "source \<Rightarrow> registry \<Rightarrow> (error + internal_block) \<times> registry" where
  "registry_resolve src reg =
     (case src of
        IntSource i \<Rightarrow> (registry_index i reg, reg)
      | StrSource s \<Rightarrow>
          (if s \<noteq> [] \<and> list_all is_digit s then registry_index (int_of_digits s) reg
           else Inl AddressError, reg))"

text \<open>
  Modelled from the spec: \<^verbatim>\<open>find_or_create_for_array\<close> of the base manager. It
  computes the buffer identity; if an existing block is already bound to that
  identity, returns it unchanged; otherwise creates a new block and registers it in
  the registry.
\<close>

definition registry_find_or_create ::
  "array_value \<Rightarrow> 'c \<Rightarrow> registry \<Rightarrow> (error + internal_block) \<times> registry" where
  "registry_find_or_create arr ctx reg =
     (case find (\<lambda>b. ib_buffer b = av_base arr) reg of
        Some b \<Rightarrow> (Inr b, reg)
      | None \<Rightarrow> (Inr \<lparr>ib_buffer = av_base arr\<rparr>, reg @ [\<lparr>ib_buffer = av_base arr\<rparr>]))"

text \<open>
  Modelled from the spec: \<^verbatim>\<open>identify(block)\<close> of the base registry. It returns the
  positional index of an internally stored block, and fails with an AddressError if
  the block is not a member of the registry.
\<close>

fun index_of :: "'a \<Rightarrow> 'a list \<Rightarrow> nat option" where
  "index_of x [] = None"
| "index_of x (y # ys) = (if x = y then Some 0 else map_option Suc (index_of x ys))"

definition registry_identify ::
  "internal_block \<Rightarrow> registry \<Rightarrow> (error + source) \<times> registry" where
  "registry_identify b reg =
     (case index_of b reg of
        None \<Rightarrow> (Inl AddressError, reg)
      | Some i \<Rightarrow> (Inr (IntSource (int i)), reg))"

subsection \<open>An example host container\<close>

text \<open>
  A host container with a primary section and a section named \<^verbatim>\<open>SCI\<close>, version 1,
  holding three bytes; the embedded file over it has an empty base registry.
\<close>

definition example_primary :: hdu where
  "example_primary = \<lparr>hdu_id = 0, hdu_name = ''PRIMARY'', hdu_ver = 1,
                       hdu_data = \<lparr>arr_id = 1, arr_base = 1, arr_bytes = []\<rparr>\<rparr>"

definition example_sci :: hdu where
  "example_sci = \<lparr>hdu_id = 2, hdu_name = ''SCI'', hdu_ver = 1,
                   hdu_data = \<lparr>arr_id = 3, arr_base = 3, arr_bytes = [1, 2, 3]\<rparr>\<rparr>"

definition example_file :: "registry asdf_in_fits" where
  "example_file = \<lparr>hdulist = [example_primary, example_sci], next_id = 10, super_state = []\<rparr>"

text \<open>
  A host container in which a section has a name outside \<^verbatim>\<open>[A-Z0-9]\<close>, two
  sections share name and version, and a section has a negative version.
\<close>

definition example_sci_a :: hdu where
  "example_sci_a = \<lparr>hdu_id = 4, hdu_name = ''SCI_A'', hdu_ver = 1,
                     hdu_data = \<lparr>arr_id = 5, arr_base = 5, arr_bytes = [4]\<rparr>\<rparr>"

definition example_sci_again :: hdu where
  "example_sci_again = \<lparr>hdu_id = 6, hdu_name = ''SCI'', hdu_ver = 1,
                         hdu_data = \<lparr>arr_id = 7, arr_base = 7, arr_bytes = [5]\<rparr>\<rparr>"

definition example_sci_neg :: hdu where
  "example_sci_neg = \<lparr>hdu_id = 8, hdu_name = ''SCI'', hdu_ver = - 1,
                       hdu_data = \<lparr>arr_id = 9, arr_base = 9, arr_bytes = [6]\<rparr>\<rparr>"

definition example_crowded :: "registry asdf_in_fits" where
  "example_crowded =
     \<lparr>hdulist = [example_primary, example_sci, example_sci_a, example_sci_again, example_sci_neg],
      next_id = 20, super_state = []\<rparr>"

text \<open>A section that holds an embedded payload of two bytes.\<close>

definition example_asdf :: hdu where
  "example_asdf = \<lparr>hdu_id = 12, hdu_name = ''ASDF'', hdu_ver = 1,
                    hdu_data = \<lparr>arr_id = 13, arr_base = 13, arr_bytes = [35, 65]\<rparr>\<rparr>"

text \<open>An embedded file whose host container already holds a payload section.\<close>

definition example_embedded :: "unit asdf_in_fits" where
  "example_embedded =
     \<lparr>hdulist = [example_primary, example_sci, example_asdf], next_id = 20, super_state = ()\<rparr>"

definition example_options :: write_options where
  "example_options = \<lparr>all_array_storage = None, all_array_compression = None,
                        auto_inline = None, pad_blocks = False\<rparr>"

text \<open>
  A host container with a section whose data array is a view of another array: the
  array object 15 has the base 16.
\<close>

definition example_view :: hdu where
  "example_view = \<lparr>hdu_id = 14, hdu_name = ''VIEW'', hdu_ver = 1,
                    hdu_data = \<lparr>arr_id = 15, arr_base = 16, arr_bytes = [7]\<rparr>\<rparr>"

definition example_viewed :: "registry asdf_in_fits" where
  "example_viewed = \<lparr>hdulist = [example_primary, example_view], next_id = 20, super_state = []\<rparr>"

subsection \<open>The base writer\<close>










section \<open>Auxiliary facts\<close>

subsection \<open>Decimal digits\<close>

lemma digit_val_digit_char: "d < 10 \<Longrightarrow> digit_val (digit_char d) = d"
  by (simp add: digit_val_def digit_char_def)

lemma is_digit_digit_char: "d < 10 \<Longrightarrow> is_digit (digit_char d)"
  by (simp add: is_digit_def digit_char_def)

lemma str_of_nat_ne: "str_of_nat n \<noteq> []"
  by (subst str_of_nat.simps) simp

lemma str_of_nat_digits: "list_all is_digit (str_of_nat n)"
proof (induction n rule: str_of_nat.induct)
  case (1 n)
  show ?case
  proof (cases "n < 10")
    case True
    then show ?thesis by (subst str_of_nat.simps) (simp add: is_digit_digit_char)
  next
    case False
    with 1 show ?thesis by (subst str_of_nat.simps) (simp add: is_digit_digit_char)
  qed
qed

lemma foldl_digits_str_of_nat: "foldl (\<lambda>a c. 10 * a + digit_val c) 0 (str_of_nat n) = n"
proof (induction n rule: str_of_nat.induct)
  case (1 n)
  show ?case
  proof (cases "n < 10")
    case True
    then show ?thesis by (subst str_of_nat.simps) (simp add: digit_val_digit_char)
  next
    case False
    with 1 show ?thesis by (subst str_of_nat.simps) (simp add: digit_val_digit_char)
  qed
qed

lemma int_of_digits_str_of_int: "0 \<le> v \<Longrightarrow> int_of_digits (str_of_int v) = v"
  by (simp add: int_of_digits_def str_of_int_def foldl_digits_str_of_nat)

lemma str_of_int_digits: "0 \<le> v \<Longrightarrow> str_of_int v \<noteq> [] \<and> list_all is_digit (str_of_int v)"
  by (simp add: str_of_int_def str_of_nat_ne str_of_nat_digits)

subsection \<open>The pattern\<close>

lemma comma_not_name_char: "\<not> is_name_char CHR '',''"
  by (simp add: is_name_char_def is_digit_def)

lemma takeWhile_all: "list_all P xs \<Longrightarrow> takeWhile P xs = xs"
  by (induction xs) auto

lemma dropWhile_all: "list_all P xs \<Longrightarrow> dropWhile P xs = []"
  by (induction xs) auto

lemma takeWhile_stop: "list_all P xs \<Longrightarrow> \<not> P c \<Longrightarrow> takeWhile P (xs @ c # ys) = xs"
  by (induction xs) auto

lemma dropWhile_stop: "list_all P xs \<Longrightarrow> \<not> P c \<Longrightarrow> dropWhile P (xs @ c # ys) = c # ys"
  by (induction xs) auto

lemma re_match_parts_name:
  "name \<noteq> [] \<Longrightarrow> list_all is_name_char name \<Longrightarrow> re_match_parts name = Some (name, None)"
  by (simp add: re_match_parts_def takeWhile_all dropWhile_all)

lemma re_match_parts_name_ver:
  "name \<noteq> [] \<Longrightarrow> list_all is_name_char name \<Longrightarrow> digits \<noteq> [] \<Longrightarrow> list_all is_digit digits
     \<Longrightarrow> re_match_parts (name @ CHR '','' # digits) = Some (name, Some digits)"
  by (simp add: re_match_parts_def takeWhile_stop dropWhile_stop takeWhile_all
        comma_not_name_char)

lemma re_match_parts_None:
  "re_match_parts s = None \<longleftrightarrow> (s = [] \<or> \<not> is_name_char (hd s))"
  by (cases s) (auto simp: re_match_parts_def Let_def split: list.splits)

lemma startswith_fits: "startswith (''fits:'' @ s) ''fits:''"
  by (simp add: startswith_def)

subsection \<open>Scanning a list\<close>

lemma find_Some_mem: "find P xs = Some x \<Longrightarrow> x \<in> set xs \<and> P x"
  by (induction xs) (auto split: if_splits)

lemma find_None_all: "find P xs = None \<longleftrightarrow> (\<forall>x \<in> set xs. \<not> P x)"
  by (induction xs) auto

subsection \<open>Evaluations\<close>

lemma str_of_int_1: "str_of_int 1 = ''1''"
  by code_simp

subsection \<open>The three ways through \<^verbatim>\<open>get_block\<close>\<close>

lemma get_block_matched:
  "re_match_parts s = Some (name, ver) \<Longrightarrow>
   hdulist_getitem (hdulist st)
     (case ver of Some v \<Rightarrow> NameVerKey name (int_of_digits v) | None \<Rightarrow> NameKey name) = Inr h \<Longrightarrow>
   get_block sgb (StrSource (''fits:'' @ s)) st =
     (Inr (FitsBlock \<lparr>fb_id = next_id st, fb_hdu = h\<rparr>), st\<lparr>next_id := Suc (next_id st)\<rparr>)"
  by (simp add: get_block_def startswith_def new_FitsBlock_def)

lemma get_block_matched_error:
  "re_match_parts s = Some (name, ver) \<Longrightarrow>
   hdulist_getitem (hdulist st)
     (case ver of Some v \<Rightarrow> NameVerKey name (int_of_digits v) | None \<Rightarrow> NameKey name) = Inl e \<Longrightarrow>
   get_block sgb (StrSource (''fits:'' @ s)) st = (Inl e, st)"
  by (simp add: get_block_def startswith_def)

lemma get_block_delegate:
  "(\<And>s. source = StrSource s \<Longrightarrow> \<not> startswith s ''fits:'' \<or> re_match_parts (drop 5 s) = None) \<Longrightarrow>
   sgb source (super_state st) = (r, s') \<Longrightarrow>
   get_block sgb source st = (map_sum id BaseBlock r, st\<lparr>super_state := s'\<rparr>)"
  by (cases source) (auto simp: get_block_def call_super_def Let_def)

lemma int_of_digits_1: "int_of_digits ''1'' = 1"
  by (simp add: int_of_digits_def digit_val_def)

subsection \<open>Positions in the registry\<close>

lemma index_of_Some: "index_of x xs = Some i \<Longrightarrow> i < length xs \<and> xs ! i = x"
  by (induction xs arbitrary: i) (auto split: if_splits)

lemma index_of_mem: "x \<in> set xs \<Longrightarrow> \<exists>i. index_of x xs = Some i"
  by (induction xs) auto

lemma str_of_int_neg1: "str_of_int (- 1) = ''-1''"
  by code_simp

subsection \<open>The source of a wrapper around a present section\<close>

lemma get_source_present:
  assumes "h0 \<in> set (hdulist st)" "hdu_id h0 = hdu_id (fb_hdu b)"
  shows "\<exists>h. h \<in> set (hdulist st) \<and> hdu_id h = hdu_id (fb_hdu b) \<and>
           get_source sgs (FitsBlock b) st =
             (Inr (StrSource (''fits:'' @ hdu_name h @ '','' @ str_of_int (hdu_ver h))), st)"
proof -
  from assms obtain h where h: "find (\<lambda>h. hdu_id h = hdu_id (fb_hdu b)) (hdulist st) = Some h"
    by (cases "find (\<lambda>h. hdu_id h = hdu_id (fb_hdu b)) (hdulist st)")
       (auto simp: find_None_all)
  from find_Some_mem [OF h] have "h \<in> set (hdulist st)" "hdu_id h = hdu_id (fb_hdu b)"
    by simp_all
  moreover from h have "get_source sgs (FitsBlock b) st =
      (Inr (StrSource (''fits:'' @ hdu_name h @ '','' @ str_of_int (hdu_ver h))), st)"
    by (simp add: get_source_def)
  ultimately show ?thesis by blast
qed

subsection \<open>Strings that are no index of the registry\<close>

lemma registry_resolve_not_index:
  "\<not> (s \<noteq> [] \<and> list_all is_digit s \<and> int_of_digits s < int (length reg)) \<Longrightarrow>
   registry_resolve (StrSource s) reg = (Inl AddressError, reg)"
  by (auto simp: registry_resolve_def registry_index_def)

subsection \<open>The lookup, and the update of the payload section\<close>

lemma hdulist_getitem_absent:
  "(\<forall>h \<in> set hl. \<not> key_matches k h) \<Longrightarrow> hdulist_getitem hl k = Inl KeyError"
proof -
  assume "\<forall>h \<in> set hl. \<not> key_matches k h"
  then have "find (key_matches k) hl = None"
    by (simp add: find_None_all)
  then show ?thesis
    by (simp add: hdulist_getitem_def)
qed

lemma hdulist_getitem_cases:
  "(hdulist_getitem hl k = Inl KeyError \<and> (\<forall>h \<in> set hl. \<not> key_matches k h))
   \<or> (\<exists>h. hdulist_getitem hl k = Inr h \<and> h \<in> set hl \<and> key_matches k h)"
proof (cases "find (key_matches k) hl")
  case None
  then have "hdulist_getitem hl k = Inl KeyError"
    by (simp add: hdulist_getitem_def)
  moreover from None have "\<forall>h \<in> set hl. \<not> key_matches k h"
    by (simp add: find_None_all)
  ultimately show ?thesis by simp
next
  case (Some h)
  then have "hdulist_getitem hl k = Inr h"
    by (simp add: hdulist_getitem_def)
  with find_Some_mem [OF Some] show ?thesis by simp
qed

lemma update_asdf_extension_error:
  "swt opts (hdulist st) (super_state st) = (Inl e, s') \<Longrightarrow>
   update_asdf_extension swt opts st = (Inl e, st\<lparr>super_state := s'\<rparr>)"
  by (simp add: update_asdf_extension_def)

lemma update_asdf_extension_absent:
  "swt opts (hdulist st) (super_state st) = (Inr payload, s') \<Longrightarrow>
   hdulist_getitem (hdulist st) (NameKey ASDF_EXTENSION_NAME) = Inl KeyError \<Longrightarrow>
   update_asdf_extension swt opts st =
     (Inr (),
      st\<lparr>hdulist := hdulist st @
            [ImageHDU \<lparr>arr_id = next_id st, arr_base = next_id st, arr_bytes = payload\<rparr> ASDF_EXTENSION_NAME
               (Suc (next_id st))],
         next_id := Suc (Suc (next_id st)), super_state := s'\<rparr>)"
  by (simp add: update_asdf_extension_def caught_def)

lemma update_asdf_extension_present:
  "swt opts (hdulist st) (super_state st) = (Inr payload, s') \<Longrightarrow>
   hdulist_getitem (hdulist st) (NameKey ASDF_EXTENSION_NAME) = Inr ext \<Longrightarrow>
   update_asdf_extension swt opts st =
     (Inr (),
      st\<lparr>hdulist := map (\<lambda>h. if hdu_id h = hdu_id ext
                              then h\<lparr>hdu_data := \<lparr>arr_id = next_id st, arr_base = next_id st, arr_bytes = payload\<rparr>\<rparr>
                              else h) (hdulist st),
         next_id := Suc (next_id st), super_state := s'\<rparr>)"
  by (simp add: update_asdf_extension_def)

lemma write_to_state:
  "snd (write_to swt wr fn opts st) = snd (update_asdf_extension swt opts st)"
  by (simp add: write_to_def split: prod.splits sum.splits option.splits)

lemma write_to_error:
  "update_asdf_extension swt opts st = (Inl e, st') \<Longrightarrow>
   write_to swt wr fn opts st = (Inl e, st')"
  by (simp add: write_to_def)


subsection \<open>What an update changes\<close>


lemma hdulist_getitem_example_embedded:
  "hdulist_getitem (hdulist example_embedded) (NameKey ASDF_EXTENSION_NAME) = Inr example_asdf"
  by (simp add: hdulist_getitem_def example_embedded_def example_primary_def example_sci_def
        example_asdf_def ASDF_EXTENSION_NAME_def)

lemma update_frame:
  assumes ok: "swt opts (hdulist st) (super_state st) = (Inr payload, s')"
  shows "fst (update_asdf_extension swt opts st) = Inr ()
     \<and> length (hdulist st) \<le> length (hdulist (snd (update_asdf_extension swt opts st)))
     \<and> (\<forall>i < length (hdulist st).
          hdu_id (hdulist (snd (update_asdf_extension swt opts st)) ! i) = hdu_id (hdulist st ! i)
        \<and> hdu_name (hdulist (snd (update_asdf_extension swt opts st)) ! i) = hdu_name (hdulist st ! i)
        \<and> hdu_ver (hdulist (snd (update_asdf_extension swt opts st)) ! i) = hdu_ver (hdulist st ! i)
        \<and> (hdulist (snd (update_asdf_extension swt opts st)) ! i \<noteq> hdulist st ! i \<longrightarrow>
             (\<exists>ext. hdulist_getitem (hdulist st) (NameKey ASDF_EXTENSION_NAME) = Inr ext
                  \<and> hdu_id (hdulist st ! i) = hdu_id ext)))"
proof -
  from hdulist_getitem_cases [of "hdulist st" "NameKey ASDF_EXTENSION_NAME"]
  consider (absent) "hdulist_getitem (hdulist st) (NameKey ASDF_EXTENSION_NAME) = Inl KeyError"
    | (present) ext where "hdulist_getitem (hdulist st) (NameKey ASDF_EXTENSION_NAME) = Inr ext"
    by blast
  then show ?thesis
  proof cases
    case absent
    from update_asdf_extension_absent [where swt = swt and opts = opts and st = st, OF ok absent] show ?thesis
      by (simp add: nth_append)
  next
    case present
    from update_asdf_extension_present [where swt = swt and opts = opts and st = st, OF ok present] present show ?thesis
      by simp
  qed
qed


subsection \<open>The pattern at the start of a longer string\<close>

lemma takeWhile_prefix:
  "list_all P xs \<Longrightarrow> ys = [] \<or> \<not> P (hd ys) \<Longrightarrow> takeWhile P (xs @ ys) = xs"
  by (cases ys) (simp_all add: takeWhile_all takeWhile_stop)

lemma dropWhile_prefix:
  "list_all P xs \<Longrightarrow> ys = [] \<or> \<not> P (hd ys) \<Longrightarrow> dropWhile P (xs @ ys) = ys"
  by (cases ys) (simp_all add: dropWhile_all dropWhile_stop)

lemma takeWhile_empty_iff: "takeWhile P xs = [] \<longleftrightarrow> xs = [] \<or> \<not> P (hd xs)"
  by (cases xs) auto

lemma re_match_parts_prefix_ver:
  assumes "name \<noteq> []" "list_all is_name_char name" "digits \<noteq> []" "list_all is_digit digits"
    "rest = [] \<or> \<not> is_digit (hd rest)"
  shows "re_match_parts (name @ CHR '','' # digits @ rest) = Some (name, Some digits)"
proof -
  from assms have "takeWhile is_digit (digits @ rest) = digits"
    by (simp add: takeWhile_prefix)
  with assms show ?thesis
    by (simp add: re_match_parts_def takeWhile_stop dropWhile_stop comma_not_name_char)
qed

lemma re_match_parts_prefix_name:
  assumes "name \<noteq> []" "list_all is_name_char name"
    "rest = [] \<or> (\<not> is_name_char (hd rest)
        \<and> \<not> (hd rest = CHR '','' \<and> tl rest \<noteq> [] \<and> is_digit (hd (tl rest))))"
  shows "re_match_parts (name @ rest) = Some (name, None)"
proof (cases rest)
  case Nil
  with assms show ?thesis by (simp add: re_match_parts_name)
next
  case (Cons c t)
  with assms have c: "\<not> is_name_char c" "\<not> (c = CHR '','' \<and> takeWhile is_digit t \<noteq> [])"
    by (auto simp: takeWhile_empty_iff)
  with assms Cons show ?thesis
    by (auto simp: re_match_parts_def takeWhile_stop dropWhile_stop Let_def)
qed

subsection \<open>The blocks that the base writer emits\<close>






subsection \<open>The state of the base class after an update\<close>


section \<open>Properties\<close>

text \<open>
  C5. Streaming an embedded file is unsupported: for every argument and every state,
  \<^verbatim>\<open>write_to_stream\<close> raises \<^verbatim>\<open>NotImplementedError\<close> (the "unsupported operation"
  signal) at once, and the state it leaves (the host container, the identity counter
  and the state of the base class, where the document lives) is the state it was
  called in: nothing was written.
\<close>

theorem write_to_stream_unsupported:
  "write_to_stream data st =
     (Inl (NotImplementedError ''Can not stream data to an ASDF file embedded in a FITS file''),
      st)"
  by (simp add: write_to_stream_def)

text \<open>
  C3. For a block that wraps a section of the host container, \<^verbatim>\<open>get_source\<close>
  scans the host container: when a section with the identity of the wrapped section is
  there, it returns the scheme string \<^verbatim>\<open>fits:NAME,VERSION\<close> of that section; when
  none is, it raises \<^verbatim>\<open>ValueError("FITS block seems to have been removed")\<close>, the
  "resource removed" error. In both cases the state (host container and document) is
  left as it was. For any other block it returns what the base manager returns, on
  the state of the base manager.
\<close>

theorem get_source_host_section:
  "((\<exists>h \<in> set (hdulist st). hdu_id h = hdu_id (fb_hdu b)) \<longrightarrow>
      (\<exists>h. h \<in> set (hdulist st) \<and> hdu_id h = hdu_id (fb_hdu b) \<and>
           get_source sgs (FitsBlock b) st =
             (Inr (StrSource (''fits:'' @ hdu_name h @ '','' @ str_of_int (hdu_ver h))), st)))
   \<and> ((\<forall>h \<in> set (hdulist st). hdu_id h \<noteq> hdu_id (fb_hdu b)) \<longrightarrow>
        get_source sgs (FitsBlock b) st =
          (Inl (ValueError ''FITS block seems to have been removed''), st))
   \<and> (sgs x (super_state st) = (r, s') \<longrightarrow>
        get_source sgs (BaseBlock x) st = (r, st\<lparr>super_state := s'\<rparr>))"
proof (intro conjI impI)
  assume "\<exists>h \<in> set (hdulist st). hdu_id h = hdu_id (fb_hdu b)"
  then obtain h where h: "find (\<lambda>h. hdu_id h = hdu_id (fb_hdu b)) (hdulist st) = Some h"
    by (cases "find (\<lambda>h. hdu_id h = hdu_id (fb_hdu b)) (hdulist st)")
       (auto simp: find_None_all)
  from find_Some_mem [OF h] have "h \<in> set (hdulist st)" "hdu_id h = hdu_id (fb_hdu b)"
    by simp_all
  moreover from h have "get_source sgs (FitsBlock b) st =
      (Inr (StrSource (''fits:'' @ hdu_name h @ '','' @ str_of_int (hdu_ver h))), st)"
    by (simp add: get_source_def)
  ultimately show "\<exists>h. h \<in> set (hdulist st) \<and> hdu_id h = hdu_id (fb_hdu b) \<and>
           get_source sgs (FitsBlock b) st =
             (Inr (StrSource (''fits:'' @ hdu_name h @ '','' @ str_of_int (hdu_ver h))), st)"
    by blast
next
  assume "\<forall>h \<in> set (hdulist st). hdu_id h \<noteq> hdu_id (fb_hdu b)"
  then have "find (\<lambda>h. hdu_id h = hdu_id (fb_hdu b)) (hdulist st) = None"
    by (simp add: find_None_all)
  then show "get_source sgs (FitsBlock b) st =
          (Inl (ValueError ''FITS block seems to have been removed''), st)"
    by (simp add: get_source_def)
next
  assume "sgs x (super_state st) = (r, s')"
  then show "get_source sgs (BaseBlock x) st = (r, st\<lparr>super_state := s'\<rparr>)"
    by (simp add: get_source_def call_super_def)
qed

theorem get_source_host_section_witness:
  "get_source registry_identify (FitsBlock \<lparr>fb_id = 7, fb_hdu = example_sci\<rparr>) example_file
     = (Inr (StrSource ''fits:SCI,1''), example_file)
   \<and> get_source registry_identify (FitsBlock \<lparr>fb_id = 7, fb_hdu = example_sci\<rparr>)
        (example_file\<lparr>hdulist := [example_primary]\<rparr>)
     = (Inl (ValueError ''FITS block seems to have been removed''),
        example_file\<lparr>hdulist := [example_primary]\<rparr>)
   \<and> get_source registry_identify (BaseBlock \<lparr>ib_buffer = 4\<rparr>)
        (example_file\<lparr>super_state := [\<lparr>ib_buffer = 4\<rparr>]\<rparr>)
     = (Inr (IntSource 0), example_file\<lparr>super_state := [\<lparr>ib_buffer = 4\<rparr>]\<rparr>)"
proof -
  let ?b = "\<lparr>fb_id = 7, fb_hdu = example_sci\<rparr>"
  let ?gone = "example_file\<lparr>hdulist := [example_primary]\<rparr>"
  let ?reg = "example_file\<lparr>super_state := [\<lparr>ib_buffer = 4\<rparr>]\<rparr>"
  have "\<exists>h \<in> set (hdulist example_file). hdu_id h = hdu_id (fb_hdu ?b)"
    by (simp add: example_file_def)
  with get_source_host_section [where st = example_file and b = ?b and sgs = registry_identify]
  obtain h where h: "h \<in> set (hdulist example_file)" "hdu_id h = hdu_id (fb_hdu ?b)"
    and src: "get_source registry_identify (FitsBlock ?b) example_file =
      (Inr (StrSource (''fits:'' @ hdu_name h @ '','' @ str_of_int (hdu_ver h))), example_file)"
    by blast
  from h have "h = example_sci"
    by (auto simp: example_file_def example_sci_def example_primary_def)
  with src have 1: "get_source registry_identify (FitsBlock ?b) example_file =
      (Inr (StrSource ''fits:SCI,1''), example_file)"
    by (simp add: example_sci_def str_of_int_1)
  have "\<forall>h \<in> set (hdulist ?gone). hdu_id h \<noteq> hdu_id (fb_hdu ?b)"
    by (simp add: example_sci_def example_primary_def)
  with get_source_host_section [where st = ?gone and b = ?b and sgs = registry_identify]
  have 2: "get_source registry_identify (FitsBlock ?b) ?gone =
      (Inl (ValueError ''FITS block seems to have been removed''), ?gone)"
    by blast
  have "registry_identify \<lparr>ib_buffer = 4\<rparr> (super_state ?reg) =
      (Inr (IntSource 0), [\<lparr>ib_buffer = 4\<rparr>])"
    by (simp add: registry_identify_def)
  with get_source_host_section [where st = ?reg and sgs = registry_identify
      and x = "\<lparr>ib_buffer = 4\<rparr>" and r = "Inr (IntSource 0)" and s' = "[\<lparr>ib_buffer = 4\<rparr>]"]
  have 3: "get_source registry_identify (BaseBlock \<lparr>ib_buffer = 4\<rparr>) ?reg =
      (Inr (IntSource 0), ?reg)"
    by simp
  from 1 2 3 show ?thesis by simp
qed

text \<open>
  C1 (as amended). For a block \<open>b\<close> that wraps a section of the host container: let
  \<open>h\<close> be the section that the scan of \<^verbatim>\<open>get_source\<close> finds, the first section of
  the host container with the identity of the wrapped section. If the name of \<open>h\<close> is
  a non-empty string over \<^verbatim>\<open>[A-Z0-9]\<close>, its version is not negative, and looking up
  its name and version in the host container gives \<open>h\<close> itself, then
  \<^verbatim>\<open>get_block(get_source(b))\<close> returns a new \<^verbatim>\<open>_FitsBlock\<close> object (its identity is
  the next free one) that wraps \<open>h\<close>, the section with the identity of the section
  that \<open>b\<close> wraps. For a block of the base registry, as the spec describes that
  registry, resolving the identifier of a member block gives that block.
\<close>

theorem get_block_get_source_same_section:
  "(find (\<lambda>x. hdu_id x = hdu_id (fb_hdu b)) (hdulist st) = Some h
      \<and> hdu_name h \<noteq> [] \<and> list_all is_name_char (hdu_name h) \<and> 0 \<le> hdu_ver h
      \<and> hdulist_getitem (hdulist st) (NameVerKey (hdu_name h) (hdu_ver h)) = Inr h \<longrightarrow>
      (\<exists>src b'. get_source sgs (FitsBlock b) st = (Inr src, st)
          \<and> get_block sgb src st = (Inr (FitsBlock b'), st\<lparr>next_id := Suc (next_id st)\<rparr>)
          \<and> fb_hdu b' = h \<and> hdu_id (fb_hdu b') = hdu_id (fb_hdu b) \<and> fb_id b' = next_id st))
   \<and> (x \<in> set (super_state rst) \<longrightarrow>
      (\<exists>src. get_source registry_identify (BaseBlock x) rst = (Inr src, rst)
          \<and> get_block registry_resolve src rst = (Inr (BaseBlock x), rst)))"
proof (intro conjI impI)
  assume a: "find (\<lambda>x. hdu_id x = hdu_id (fb_hdu b)) (hdulist st) = Some h
      \<and> hdu_name h \<noteq> [] \<and> list_all is_name_char (hdu_name h) \<and> 0 \<le> hdu_ver h
      \<and> hdulist_getitem (hdulist st) (NameVerKey (hdu_name h) (hdu_ver h)) = Inr h"
  let ?digits = "str_of_int (hdu_ver h)"
  let ?s = "hdu_name h @ CHR '','' # ?digits"
  from a have src: "get_source sgs (FitsBlock b) st = (Inr (StrSource (''fits:'' @ ?s)), st)"
    by (simp add: get_source_def)
  from a have dg: "?digits \<noteq> []" "list_all is_digit ?digits" "int_of_digits ?digits = hdu_ver h"
    by (simp_all add: str_of_int_digits int_of_digits_str_of_int)
  with a have m: "re_match_parts ?s = Some (hdu_name h, Some ?digits)"
    by (simp add: re_match_parts_name_ver)
  from a dg have "hdulist_getitem (hdulist st)
      (case Some ?digits of Some v \<Rightarrow> NameVerKey (hdu_name h) (int_of_digits v)
       | None \<Rightarrow> NameKey (hdu_name h)) = Inr h"
    by simp
  from get_block_matched [OF m this]
  have blk: "get_block sgb (StrSource (''fits:'' @ ?s)) st =
      (Inr (FitsBlock \<lparr>fb_id = next_id st, fb_hdu = h\<rparr>), st\<lparr>next_id := Suc (next_id st)\<rparr>)" .
  from a have "hdu_id h = hdu_id (fb_hdu b)"
    by (auto dest: find_Some_mem)
  with src blk show "\<exists>src b'. get_source sgs (FitsBlock b) st = (Inr src, st)
          \<and> get_block sgb src st = (Inr (FitsBlock b'), st\<lparr>next_id := Suc (next_id st)\<rparr>)
          \<and> fb_hdu b' = h \<and> hdu_id (fb_hdu b') = hdu_id (fb_hdu b) \<and> fb_id b' = next_id st"
    by simp
next
  assume "x \<in> set (super_state rst)"
  then obtain i where i: "index_of x (super_state rst) = Some i"
    using index_of_mem by fastforce
  then have n: "i < length (super_state rst)" "super_state rst ! i = x"
    using index_of_Some by fastforce+
  from i have src: "get_source registry_identify (BaseBlock x) rst = (Inr (IntSource (int i)), rst)"
    by (simp add: get_source_def call_super_def registry_identify_def)
  from n have "registry_resolve (IntSource (int i)) (super_state rst) = (Inr x, super_state rst)"
    by (simp add: registry_resolve_def registry_index_def)
  then have "get_block registry_resolve (IntSource (int i)) rst = (Inr (BaseBlock x), rst)"
    by (simp add: get_block_def call_super_def)
  with src show "\<exists>src. get_source registry_identify (BaseBlock x) rst = (Inr src, rst)
          \<and> get_block registry_resolve src rst = (Inr (BaseBlock x), rst)"
    by simp
qed

theorem get_block_get_source_same_section_witness:
  "(\<exists>src b'. get_source registry_identify (FitsBlock \<lparr>fb_id = 7, fb_hdu = example_sci\<rparr>)
                 example_file = (Inr src, example_file)
        \<and> get_block registry_resolve src example_file =
            (Inr (FitsBlock b'), example_file\<lparr>next_id := Suc (next_id example_file)\<rparr>)
        \<and> fb_hdu b' = example_sci \<and> fb_id b' = next_id example_file)
   \<and> (\<exists>src. get_source registry_identify (BaseBlock \<lparr>ib_buffer = 4\<rparr>)
              (example_file\<lparr>super_state := [\<lparr>ib_buffer = 4\<rparr>]\<rparr>)
            = (Inr src, example_file\<lparr>super_state := [\<lparr>ib_buffer = 4\<rparr>]\<rparr>)
        \<and> get_block registry_resolve src (example_file\<lparr>super_state := [\<lparr>ib_buffer = 4\<rparr>]\<rparr>)
            = (Inr (BaseBlock \<lparr>ib_buffer = 4\<rparr>),
               example_file\<lparr>super_state := [\<lparr>ib_buffer = 4\<rparr>]\<rparr>))"
proof -
  let ?b = "\<lparr>fb_id = 7, fb_hdu = example_sci\<rparr>"
  let ?rst = "example_file\<lparr>super_state := [\<lparr>ib_buffer = 4\<rparr>]\<rparr>"
  have h1: "find (\<lambda>x. hdu_id x = hdu_id (fb_hdu ?b)) (hdulist example_file) = Some example_sci
      \<and> hdu_name example_sci \<noteq> [] \<and> list_all is_name_char (hdu_name example_sci)
      \<and> 0 \<le> hdu_ver example_sci
      \<and> hdulist_getitem (hdulist example_file)
            (NameVerKey (hdu_name example_sci) (hdu_ver example_sci)) = Inr example_sci"
    by (simp add: example_file_def example_sci_def example_primary_def is_name_char_def
          hdulist_getitem_def)
  have h2: "\<lparr>ib_buffer = 4\<rparr> \<in> set (super_state ?rst)"
    by simp
  from get_block_get_source_same_section
         [where b = ?b and st = example_file and h = example_sci and sgs = registry_identify
            and sgb = registry_resolve and x = "\<lparr>ib_buffer = 4\<rparr>" and rst = ?rst]
       h1 h2
  show ?thesis by blast
qed

text \<open>
  C1 as stated fails. In the example file, the block 7 around the section \<^verbatim>\<open>SCI\<close>
  has the source \<^verbatim>\<open>fits:SCI,1\<close>, and resolving it gives the new block 10, another
  object. In the crowded host container, the source of the block around \<^verbatim>\<open>SCI_A\<close>
  is \<^verbatim>\<open>fits:SCI_A,1\<close>, of which the pattern matches \<^verbatim>\<open>SCI\<close>; the source of the
  block around the second section \<^verbatim>\<open>SCI\<close>, version 1, names the first one; the
  source \<^verbatim>\<open>fits:SCI,-1\<close> of the block around the section of version -1 is matched as
  the name \<^verbatim>\<open>SCI\<close> alone. All three resolve to a block around another section.
\<close>

theorem get_block_get_source_counterexample:
  "(fst (get_source registry_identify (FitsBlock \<lparr>fb_id = 7, fb_hdu = example_sci\<rparr>) example_file)
      = Inr (StrSource ''fits:SCI,1'')
    \<and> fst (get_block registry_resolve (StrSource ''fits:SCI,1'') example_file)
      = Inr (FitsBlock \<lparr>fb_id = 10, fb_hdu = example_sci\<rparr>)
    \<and> FitsBlock \<lparr>fb_id = 10, fb_hdu = example_sci\<rparr>
      \<noteq> (FitsBlock \<lparr>fb_id = 7, fb_hdu = example_sci\<rparr> :: internal_block block))
   \<and> (fst (get_source registry_identify (FitsBlock \<lparr>fb_id = 7, fb_hdu = example_sci_a\<rparr>)
           example_crowded)
      = Inr (StrSource ''fits:SCI_A,1'')
    \<and> fst (get_block registry_resolve (StrSource ''fits:SCI_A,1'') example_crowded)
      = Inr (FitsBlock \<lparr>fb_id = 20, fb_hdu = example_sci\<rparr>)
    \<and> hdu_id example_sci \<noteq> hdu_id example_sci_a)
   \<and> (fst (get_source registry_identify (FitsBlock \<lparr>fb_id = 7, fb_hdu = example_sci_again\<rparr>)
           example_crowded)
      = Inr (StrSource ''fits:SCI,1'')
    \<and> fst (get_block registry_resolve (StrSource ''fits:SCI,1'') example_crowded)
      = Inr (FitsBlock \<lparr>fb_id = 20, fb_hdu = example_sci\<rparr>)
    \<and> hdu_id example_sci \<noteq> hdu_id example_sci_again)
   \<and> (fst (get_source registry_identify (FitsBlock \<lparr>fb_id = 7, fb_hdu = example_sci_neg\<rparr>)
           example_crowded)
      = Inr (StrSource ''fits:SCI,-1'')
    \<and> fst (get_block registry_resolve (StrSource ''fits:SCI,-1'') example_crowded)
      = Inr (FitsBlock \<lparr>fb_id = 20, fb_hdu = example_sci\<rparr>)
    \<and> hdu_id example_sci \<noteq> hdu_id example_sci_neg)"
  by (simp add: get_source_def get_block_def example_file_def example_crowded_def
        example_primary_def example_sci_def example_sci_a_def example_sci_again_def
        example_sci_neg_def str_of_int_1 str_of_int_neg1 startswith_def re_match_parts_def
        is_name_char_def is_digit_def hdulist_getitem_def new_FitsBlock_def int_of_digits_1)

text \<open>
  C7 (as amended). A source string that does not start with \<^verbatim>\<open>fits:\<close>, or whose
  text after \<^verbatim>\<open>fits:\<close> is empty or does not begin with a character of
  \<^verbatim>\<open>[A-Z0-9]\<close>, falls through to the base manager, and \<^verbatim>\<open>get_block\<close> returns what
  the base manager returns, an error as that error: nothing is caught. With the base
  registry of the spec, such a string raises AddressError unless it is a valid index.
\<close>

theorem get_block_fall_through:
  "((\<not> startswith s ''fits:'' \<or> drop 5 s = [] \<or> \<not> is_name_char (hd (drop 5 s)))
      \<and> sgb (StrSource s) (super_state st) = (r, s') \<longrightarrow>
      get_block sgb (StrSource s) st = (map_sum id BaseBlock r, st\<lparr>super_state := s'\<rparr>))
   \<and> ((\<not> startswith s ''fits:'' \<or> drop 5 s = [] \<or> \<not> is_name_char (hd (drop 5 s)))
      \<and> \<not> (s \<noteq> [] \<and> list_all is_digit s \<and> int_of_digits s < int (length (super_state rst))) \<longrightarrow>
      get_block registry_resolve (StrSource s) rst = (Inl AddressError, rst))"
proof (intro conjI impI)
  assume a: "(\<not> startswith s ''fits:'' \<or> drop 5 s = [] \<or> \<not> is_name_char (hd (drop 5 s)))
      \<and> sgb (StrSource s) (super_state st) = (r, s')"
  then have "\<not> startswith s ''fits:'' \<or> re_match_parts (drop 5 s) = None"
    by (simp add: re_match_parts_None)
  with a show "get_block sgb (StrSource s) st = (map_sum id BaseBlock r, st\<lparr>super_state := s'\<rparr>)"
    by (intro get_block_delegate) auto
next
  assume a: "(\<not> startswith s ''fits:'' \<or> drop 5 s = [] \<or> \<not> is_name_char (hd (drop 5 s)))
      \<and> \<not> (s \<noteq> [] \<and> list_all is_digit s \<and> int_of_digits s < int (length (super_state rst)))"
  then have n: "\<not> startswith s ''fits:'' \<or> re_match_parts (drop 5 s) = None"
    by (simp add: re_match_parts_None)
  from a have "registry_resolve (StrSource s) (super_state rst) =
      (Inl AddressError, super_state rst)"
    by (intro registry_resolve_not_index) simp
  with n have "get_block registry_resolve (StrSource s) rst =
      (map_sum id BaseBlock (Inl AddressError), rst\<lparr>super_state := super_state rst\<rparr>)"
    by (intro get_block_delegate) auto
  then show "get_block registry_resolve (StrSource s) rst = (Inl AddressError, rst)"
    by simp
qed

theorem get_block_fall_through_witness:
  "get_block registry_resolve (StrSource ''asdf:SCI,1'') example_file
     = (Inl AddressError, example_file)
   \<and> get_block registry_resolve (StrSource ''fits:sci,1'') example_file
     = (Inl AddressError, example_file)"
proof -
  have h1: "(\<not> startswith ''asdf:SCI,1'' ''fits:'' \<or> drop 5 ''asdf:SCI,1'' = []
        \<or> \<not> is_name_char (hd (drop 5 ''asdf:SCI,1'')))
      \<and> registry_resolve (StrSource ''asdf:SCI,1'') (super_state example_file)
          = (Inl AddressError, [])"
    by (simp add: startswith_def registry_resolve_def is_digit_def example_file_def)
  have h2: "(\<not> startswith ''fits:sci,1'' ''fits:'' \<or> drop 5 ''fits:sci,1'' = []
        \<or> \<not> is_name_char (hd (drop 5 ''fits:sci,1'')))
      \<and> \<not> (''fits:sci,1'' \<noteq> [] \<and> list_all is_digit ''fits:sci,1''
            \<and> int_of_digits ''fits:sci,1'' < int (length (super_state example_file)))"
    by (simp add: is_name_char_def is_digit_def)
  from get_block_fall_through
         [where s = "''asdf:SCI,1''" and sgb = registry_resolve and st = example_file
            and r = "Inl AddressError" and s' = "[]"] h1
  have 1: "get_block registry_resolve (StrSource ''asdf:SCI,1'') example_file
      = (map_sum id BaseBlock (Inl AddressError), example_file\<lparr>super_state := []\<rparr>)"
    by blast
  from get_block_fall_through
         [where s = "''fits:sci,1''" and rst = example_file, THEN conjunct2, THEN mp, OF h2]
  have 2: "get_block registry_resolve (StrSource ''fits:sci,1'') example_file
      = (Inl AddressError, example_file)" .
  from 1 2 show ?thesis
    by (simp add: example_file_def)
qed

text \<open>
  C7 as stated fails for a malformed string whose text after \<^verbatim>\<open>fits:\<close> begins with
  a name: \<^verbatim>\<open>re.match\<close> matches at the start only. With trailing characters after
  a valid name and version (\<^verbatim>\<open>fits:SCI,1junk\<close>) and with a name outside the alphabet
  (\<^verbatim>\<open>fits:SCI_A,1\<close>), \<^verbatim>\<open>get_block\<close> raises nothing and returns a block around the
  section \<^verbatim>\<open>SCI\<close>.
\<close>

theorem get_block_malformed_counterexample:
  "get_block registry_resolve (StrSource ''fits:SCI,1junk'') example_file
     = (Inr (FitsBlock \<lparr>fb_id = 10, fb_hdu = example_sci\<rparr>), example_file\<lparr>next_id := 11\<rparr>)
   \<and> get_block registry_resolve (StrSource ''fits:SCI_A,1'') example_file
     = (Inr (FitsBlock \<lparr>fb_id = 10, fb_hdu = example_sci\<rparr>), example_file\<lparr>next_id := 11\<rparr>)"
  by (simp add: get_block_def example_file_def example_primary_def example_sci_def
        startswith_def re_match_parts_def is_name_char_def is_digit_def hdulist_getitem_def
        new_FitsBlock_def int_of_digits_1)

text \<open>
  C10. When no section of the host container is named \<^verbatim>\<open>ASDF\<close>, the lookup raises
  \<^verbatim>\<open>KeyError\<close>, which \<^verbatim>\<open>read\<close> catches: it returns a new embedded file over that
  host container, constructed with no tree (\<^verbatim>\<open>tree=None\<close> reaches the constructor of
  the base class, the empty document), whatever the decoder is: the decoder is not
  run. When the lookup gives a section \<open>h\<close>, the result is what the decoder of the
  base class makes of the bytes of \<open>h\<close>.
\<close>

theorem read_missing_payload:
  "((\<forall>h \<in> set hl. hdu_name h \<noteq> ASDF_EXTENSION_NAME) \<longrightarrow>
      read si ri hl uri vc ext nid = Inr (AsdfInFits_init si (Some hl) None uri ext nid)
      \<and> hdulist (AsdfInFits_init si (Some hl) None uri ext nid) = hl
      \<and> super_state (AsdfInFits_init si (Some hl) None uri ext nid) = si None uri ext)
   \<and> (hdulist_getitem hl (NameKey ASDF_EXTENSION_NAME) = Inr h \<longrightarrow>
      read si ri hl uri vc ext nid =
        ri (AsdfInFits_init si (Some hl) None None ext nid) (arr_bytes (hdu_data h)) uri vc)"
proof (intro conjI impI)
  assume "\<forall>h \<in> set hl. hdu_name h \<noteq> ASDF_EXTENSION_NAME"
  then have "hdulist_getitem hl (NameKey ASDF_EXTENSION_NAME) = Inl KeyError"
    by (intro hdulist_getitem_absent) simp
  then show "read si ri hl uri vc ext nid = Inr (AsdfInFits_init si (Some hl) None uri ext nid)"
    by (simp add: read_def caught_def)
next
  show "hdulist (AsdfInFits_init si (Some hl) None uri ext nid) = hl"
    by (simp add: AsdfInFits_init_def)
next
  show "super_state (AsdfInFits_init si (Some hl) None uri ext nid) = si None uri ext"
    by (simp add: AsdfInFits_init_def)
next
  assume "hdulist_getitem hl (NameKey ASDF_EXTENSION_NAME) = Inr h"
  then show "read si ri hl uri vc ext nid =
        ri (AsdfInFits_init si (Some hl) None None ext nid) (arr_bytes (hdu_data h)) uri vc"
    by (simp add: read_def)
qed

theorem read_missing_payload_witness:
  "read (\<lambda>tree uri ext. (tree :: nat option, uri)) (\<lambda>self buff uri vc. Inl (ValueError ''decoded''))
        [example_primary, example_sci] None False (None :: unit option) 20
     = Inr \<lparr>hdulist = [example_primary, example_sci], next_id = 20, super_state = (None, None)\<rparr>
   \<and> read (\<lambda>tree uri ext. (tree :: nat option, uri))
        (\<lambda>self buff uri vc. Inr (self\<lparr>super_state := (Some (length buff), uri)\<rparr>))
        [example_primary, example_asdf] None False (None :: unit option) 20
     = Inr \<lparr>hdulist = [example_primary, example_asdf], next_id = 20,
            super_state = (Some 2, None)\<rparr>"
proof -
  let ?si = "\<lambda>tree uri ext. (tree :: nat option, uri :: string option)"
  let ?fail = "\<lambda>self buff uri vc. Inl (ValueError ''decoded'')
      :: error + (nat option \<times> string option) asdf_in_fits"
  let ?ri = "\<lambda>self buff (uri :: string option) (vc :: bool).
      Inr (self\<lparr>super_state := (Some (length buff), uri)\<rparr>)
      :: error + (nat option \<times> string option) asdf_in_fits"
  have h1: "\<forall>h \<in> set [example_primary, example_sci]. hdu_name h \<noteq> ASDF_EXTENSION_NAME"
    by (simp add: example_primary_def example_sci_def ASDF_EXTENSION_NAME_def)
  have h2: "hdulist_getitem [example_primary, example_asdf] (NameKey ASDF_EXTENSION_NAME)
      = Inr example_asdf"
    by (simp add: hdulist_getitem_def example_primary_def example_asdf_def
          ASDF_EXTENSION_NAME_def)
  from read_missing_payload
         [where hl = "[example_primary, example_sci]" and si = ?si and ri = ?fail
            and uri = None and vc = False and ext = "None :: unit option" and nid = 20,
          THEN conjunct1, THEN mp, OF h1]
  have 1: "read ?si ?fail [example_primary, example_sci] None False (None :: unit option) 20
      = Inr (AsdfInFits_init ?si (Some [example_primary, example_sci]) None None
               (None :: unit option) 20)"
    by simp
  from read_missing_payload
         [where hl = "[example_primary, example_asdf]" and si = ?si and ri = ?ri
            and uri = None and vc = False and ext = "None :: unit option" and nid = 20
            and h = example_asdf,
          THEN conjunct2, THEN mp, OF h2]
  have 2: "read ?si ?ri [example_primary, example_asdf] None False (None :: unit option) 20
      = ?ri (AsdfInFits_init ?si (Some [example_primary, example_asdf]) None None
             (None :: unit option) 20)
          (arr_bytes (hdu_data example_asdf)) None False" .
  have len: "length (arr_bytes (hdu_data example_asdf)) = 2"
    by (simp add: example_asdf_def)
  from 1 2 show ?thesis
    by (simp add: AsdfInFits_init_def len)
qed

text \<open>
  C9. The payload is written by the base class into a buffer of its own before the
  host container is touched. If the writer of the base class raises, \<^verbatim>\<open>update\<close> and
  \<^verbatim>\<open>write_to\<close> raise that exception and the host container is the list of sections it
  was, each section unchanged (\<^verbatim>\<open>writeto\<close> is not reached). If it succeeds, the host
  container after the update has at least the sections it had; each of them keeps its
  identity, name and version; and a section that differs from what it was has the
  identity of the section that the lookup of \<^verbatim>\<open>ASDF\<close> gives: every other section is
  unchanged, bytes included. \<^verbatim>\<open>write_to\<close> leaves the state that \<^verbatim>\<open>update\<close> leaves.
\<close>

theorem update_atomic_frame:
  "(swt opts (hdulist st) (super_state st) = (Inl e, s') \<longrightarrow>
      update swt opts st = (Inl e, st\<lparr>super_state := s'\<rparr>)
      \<and> write_to swt wr fn opts st = (Inl e, st\<lparr>super_state := s'\<rparr>)
      \<and> hdulist (snd (update swt opts st)) = hdulist st)
   \<and> (swt opts (hdulist st) (super_state st) = (Inr payload, s') \<longrightarrow>
      fst (update swt opts st) = Inr ()
      \<and> snd (write_to swt wr fn opts st) = snd (update swt opts st)
      \<and> length (hdulist st) \<le> length (hdulist (snd (update swt opts st)))
      \<and> (\<forall>i < length (hdulist st).
            hdu_id (hdulist (snd (update swt opts st)) ! i) = hdu_id (hdulist st ! i)
          \<and> hdu_name (hdulist (snd (update swt opts st)) ! i) = hdu_name (hdulist st ! i)
          \<and> hdu_ver (hdulist (snd (update swt opts st)) ! i) = hdu_ver (hdulist st ! i)
          \<and> (hdulist (snd (update swt opts st)) ! i \<noteq> hdulist st ! i \<longrightarrow>
               (\<exists>ext. hdulist_getitem (hdulist st) (NameKey ASDF_EXTENSION_NAME) = Inr ext
                    \<and> hdu_id (hdulist st ! i) = hdu_id ext))))"
proof (intro conjI impI)
  assume err: "swt opts (hdulist st) (super_state st) = (Inl e, s')"
  from update_asdf_extension_error [where swt = swt and opts = opts and st = st, OF err]
  show u: "update swt opts st = (Inl e, st\<lparr>super_state := s'\<rparr>)"
    by (simp add: update_def)
  from update_asdf_extension_error [where swt = swt and opts = opts and st = st, OF err, THEN write_to_error]
  show "write_to swt wr fn opts st = (Inl e, st\<lparr>super_state := s'\<rparr>)" .
  from u show "hdulist (snd (update swt opts st)) = hdulist st"
    by simp
next
  assume ok: "swt opts (hdulist st) (super_state st) = (Inr payload, s')"
  note f = update_frame [where swt = swt and opts = opts and st = st, OF ok, folded update_def]
  from f show "fst (update swt opts st) = Inr ()" by blast
  show "snd (write_to swt wr fn opts st) = snd (update swt opts st)"
    by (simp add: write_to_state update_def)
  from f show "length (hdulist st) \<le> length (hdulist (snd (update swt opts st)))" by blast
  from f show "\<forall>i < length (hdulist st).
            hdu_id (hdulist (snd (update swt opts st)) ! i) = hdu_id (hdulist st ! i)
          \<and> hdu_name (hdulist (snd (update swt opts st)) ! i) = hdu_name (hdulist st ! i)
          \<and> hdu_ver (hdulist (snd (update swt opts st)) ! i) = hdu_ver (hdulist st ! i)
          \<and> (hdulist (snd (update swt opts st)) ! i \<noteq> hdulist st ! i \<longrightarrow>
               (\<exists>ext. hdulist_getitem (hdulist st) (NameKey ASDF_EXTENSION_NAME) = Inr ext
                    \<and> hdu_id (hdulist st ! i) = hdu_id ext))"
    by blast
qed

theorem update_atomic_frame_witness:
  "update (\<lambda>opts hl s. (Inl (ValueError ''codec''), s)) example_options example_embedded
     = (Inl (ValueError ''codec''), example_embedded)
   \<and> fst (update (\<lambda>opts hl s. (Inr [1, 2], s)) example_options example_embedded) = Inr ()
   \<and> hdulist (snd (update (\<lambda>opts hl s. (Inr [1, 2], s)) example_options example_embedded)) ! 1
     = example_sci"
proof -
  let ?bad = "\<lambda>(opts :: write_options) (hl :: hdu list) (s :: unit).
      (Inl (ValueError ''codec'') :: error + byte list, s)"
  let ?good = "\<lambda>(opts :: write_options) (hl :: hdu list) (s :: unit).
      (Inr [1, 2] :: error + byte list, s)"
  let ?st' = "snd (update ?good example_options example_embedded)"
  have e: "?bad example_options (hdulist example_embedded) (super_state example_embedded)
      = (Inl (ValueError ''codec''), ())"
    by simp
  have g: "?good example_options (hdulist example_embedded) (super_state example_embedded)
      = (Inr [1, 2], ())"
    by simp
  from update_atomic_frame
         [where swt = ?bad and opts = example_options and st = example_embedded
            and e = "ValueError ''codec''" and s' = "()", THEN conjunct1, THEN mp, OF e]
  have 1: "update ?bad example_options example_embedded
      = (Inl (ValueError ''codec''), example_embedded)"
    by simp
  note ok = update_atomic_frame
         [where swt = ?good and opts = example_options and st = example_embedded
            and payload = "[1, 2]" and s' = "()", THEN conjunct2, THEN mp, OF g]
  from ok have 2: "fst (update ?good example_options example_embedded) = Inr ()"
    by blast
  have i: "1 < length (hdulist example_embedded)"
    by (simp add: example_embedded_def)
  have "hdulist ?st' ! 1 \<noteq> hdulist example_embedded ! 1 \<longrightarrow>
      (\<exists>ext. hdulist_getitem (hdulist example_embedded) (NameKey ASDF_EXTENSION_NAME) = Inr ext
           \<and> hdu_id (hdulist example_embedded ! 1) = hdu_id ext)"
    using ok i by blast
  moreover have "hdu_id (hdulist example_embedded ! 1) \<noteq> hdu_id example_asdf"
    by (simp add: example_embedded_def example_sci_def example_asdf_def)
  ultimately have "hdulist ?st' ! 1 = hdulist example_embedded ! 1"
    by (auto simp: hdulist_getitem_example_embedded)
  then have 3: "hdulist ?st' ! 1 = example_sci"
    by (simp add: example_embedded_def)
  from 1 2 3 show ?thesis by simp
qed

text \<open>
  C2 (as amended). Let the text after \<^verbatim>\<open>fits:\<close> begin with a name: a non-empty run
  of characters of \<^verbatim>\<open>[A-Z0-9]\<close> that the next character, if any, does not extend.
  When a comma and a digit do not follow the name, \<^verbatim>\<open>get_block\<close> looks the name up
  alone (the first section of that name); when a comma and a run of digits that the
  next character does not extend follow it, it looks up the name and that version.
  Whatever text comes after is ignored. When the lookup gives the section \<open>h\<close>, the
  result is a new block (its identity is the next free one) that wraps \<open>h\<close>, and the
  data of the section it wraps is the data array of \<open>h\<close>. A source that is not a
  string, does not start with \<^verbatim>\<open>fits:\<close>, or whose text after the prefix is empty or
  does not begin with a character of \<^verbatim>\<open>[A-Z0-9]\<close>, gets what the base manager
  returns.
\<close>

theorem get_block_scheme_prefix:
  "(name \<noteq> [] \<and> list_all is_name_char name
      \<and> (rest = [] \<or> (\<not> is_name_char (hd rest)
            \<and> \<not> (hd rest = CHR '','' \<and> tl rest \<noteq> [] \<and> is_digit (hd (tl rest)))))
      \<and> hdulist_getitem (hdulist st) (NameKey name) = Inr h \<longrightarrow>
      (\<exists>b. get_block sgb (StrSource (''fits:'' @ name @ rest)) st =
              (Inr (FitsBlock b), st\<lparr>next_id := Suc (next_id st)\<rparr>)
           \<and> fb_id b = next_id st \<and> fb_hdu b = h \<and> hdu_data (fb_hdu b) = hdu_data h))
   \<and> (name \<noteq> [] \<and> list_all is_name_char name \<and> digits \<noteq> [] \<and> list_all is_digit digits
      \<and> (rest = [] \<or> \<not> is_digit (hd rest))
      \<and> hdulist_getitem (hdulist st) (NameVerKey name (int_of_digits digits)) = Inr h \<longrightarrow>
      (\<exists>b. get_block sgb (StrSource (''fits:'' @ name @ '','' @ digits @ rest)) st =
              (Inr (FitsBlock b), st\<lparr>next_id := Suc (next_id st)\<rparr>)
           \<and> fb_id b = next_id st \<and> fb_hdu b = h \<and> hdu_data (fb_hdu b) = hdu_data h))
   \<and> ((\<forall>s. source = StrSource s \<longrightarrow>
            \<not> startswith s ''fits:'' \<or> drop 5 s = [] \<or> \<not> is_name_char (hd (drop 5 s)))
      \<and> sgb source (super_state st) = (r, s') \<longrightarrow>
      get_block sgb source st = (map_sum id BaseBlock r, st\<lparr>super_state := s'\<rparr>))"
proof (intro conjI impI)
  assume a: "name \<noteq> [] \<and> list_all is_name_char name
      \<and> (rest = [] \<or> (\<not> is_name_char (hd rest)
            \<and> \<not> (hd rest = CHR '','' \<and> tl rest \<noteq> [] \<and> is_digit (hd (tl rest)))))
      \<and> hdulist_getitem (hdulist st) (NameKey name) = Inr h"
  then have "re_match_parts (name @ rest) = Some (name, None)"
    by (intro re_match_parts_prefix_name) simp_all
  with a have "get_block sgb (StrSource (''fits:'' @ (name @ rest))) st =
      (Inr (FitsBlock \<lparr>fb_id = next_id st, fb_hdu = h\<rparr>), st\<lparr>next_id := Suc (next_id st)\<rparr>)"
    using get_block_matched [where s = "name @ rest" and name = name and ver = None
        and st = st and h = h]
    by simp
  then show "\<exists>b. get_block sgb (StrSource (''fits:'' @ name @ rest)) st =
              (Inr (FitsBlock b), st\<lparr>next_id := Suc (next_id st)\<rparr>)
           \<and> fb_id b = next_id st \<and> fb_hdu b = h \<and> hdu_data (fb_hdu b) = hdu_data h"
    by simp
next
  assume a: "name \<noteq> [] \<and> list_all is_name_char name \<and> digits \<noteq> [] \<and> list_all is_digit digits
      \<and> (rest = [] \<or> \<not> is_digit (hd rest))
      \<and> hdulist_getitem (hdulist st) (NameVerKey name (int_of_digits digits)) = Inr h"
  then have "re_match_parts (name @ CHR '','' # digits @ rest) = Some (name, Some digits)"
    by (intro re_match_parts_prefix_ver) simp_all
  with a have "get_block sgb (StrSource (''fits:'' @ (name @ CHR '','' # digits @ rest))) st =
      (Inr (FitsBlock \<lparr>fb_id = next_id st, fb_hdu = h\<rparr>), st\<lparr>next_id := Suc (next_id st)\<rparr>)"
    using get_block_matched [where s = "name @ CHR '','' # digits @ rest" and name = name
        and ver = "Some digits" and st = st and h = h]
    by simp
  then show "\<exists>b. get_block sgb (StrSource (''fits:'' @ name @ '','' @ digits @ rest)) st =
              (Inr (FitsBlock b), st\<lparr>next_id := Suc (next_id st)\<rparr>)
           \<and> fb_id b = next_id st \<and> fb_hdu b = h \<and> hdu_data (fb_hdu b) = hdu_data h"
    by simp
next
  assume a: "(\<forall>s. source = StrSource s \<longrightarrow>
            \<not> startswith s ''fits:'' \<or> drop 5 s = [] \<or> \<not> is_name_char (hd (drop 5 s)))
      \<and> sgb source (super_state st) = (r, s')"
  then have "\<And>s. source = StrSource s \<Longrightarrow>
      \<not> startswith s ''fits:'' \<or> re_match_parts (drop 5 s) = None"
    by (auto simp: re_match_parts_None)
  with a show "get_block sgb source st = (map_sum id BaseBlock r, st\<lparr>super_state := s'\<rparr>)"
    using get_block_delegate [where source = source and sgb = sgb and st = st] by blast
qed

theorem get_block_scheme_prefix_witness:
  "(\<exists>b. get_block registry_resolve (StrSource ''fits:SCI_A'') example_file =
          (Inr (FitsBlock b), example_file\<lparr>next_id := Suc (next_id example_file)\<rparr>)
        \<and> fb_id b = next_id example_file \<and> fb_hdu b = example_sci
        \<and> hdu_data (fb_hdu b) = hdu_data example_sci)
   \<and> (\<exists>b. get_block registry_resolve (StrSource ''fits:SCI,1junk'') example_file =
          (Inr (FitsBlock b), example_file\<lparr>next_id := Suc (next_id example_file)\<rparr>)
        \<and> fb_id b = next_id example_file \<and> fb_hdu b = example_sci
        \<and> hdu_data (fb_hdu b) = hdu_data example_sci)
   \<and> (\<exists>b. get_block registry_resolve (StrSource ''fits:SCI,1'') example_file =
          (Inr (FitsBlock b), example_file\<lparr>next_id := Suc (next_id example_file)\<rparr>)
        \<and> fb_id b = next_id example_file \<and> fb_hdu b = example_sci
        \<and> hdu_data (fb_hdu b) = hdu_data example_sci)
   \<and> get_block registry_resolve (StrSource ''0'')
        (example_file\<lparr>super_state := [\<lparr>ib_buffer = 4\<rparr>]\<rparr>)
      = (Inr (BaseBlock \<lparr>ib_buffer = 4\<rparr>), example_file\<lparr>super_state := [\<lparr>ib_buffer = 4\<rparr>]\<rparr>)"
proof -
  let ?reg = "example_file\<lparr>super_state := [\<lparr>ib_buffer = 4\<rparr>]\<rparr>"
  have l1: "hdulist_getitem (hdulist example_file) (NameKey ''SCI'') = Inr example_sci"
    by (simp add: hdulist_getitem_def example_file_def example_sci_def example_primary_def)
  have l2: "hdulist_getitem (hdulist example_file) (NameVerKey ''SCI'' (int_of_digits ''1''))
      = Inr example_sci"
    by (simp add: hdulist_getitem_def example_file_def example_sci_def example_primary_def
          int_of_digits_1)
  have h1: "''SCI'' \<noteq> [] \<and> list_all is_name_char ''SCI''
      \<and> (''_A'' = [] \<or> (\<not> is_name_char (hd ''_A'')
            \<and> \<not> (hd ''_A'' = CHR '','' \<and> tl ''_A'' \<noteq> [] \<and> is_digit (hd (tl ''_A'')))))
      \<and> hdulist_getitem (hdulist example_file) (NameKey ''SCI'') = Inr example_sci"
    using l1 by (simp add: is_name_char_def is_digit_def)
  have h2: "''SCI'' \<noteq> [] \<and> list_all is_name_char ''SCI'' \<and> ''1'' \<noteq> []
      \<and> list_all is_digit ''1'' \<and> (''junk'' = [] \<or> \<not> is_digit (hd ''junk''))
      \<and> hdulist_getitem (hdulist example_file) (NameVerKey ''SCI'' (int_of_digits ''1''))
          = Inr example_sci"
    using l2 by (simp add: is_name_char_def is_digit_def)
  have h3: "''SCI'' \<noteq> [] \<and> list_all is_name_char ''SCI'' \<and> ''1'' \<noteq> []
      \<and> list_all is_digit ''1'' \<and> (([] :: string) = [] \<or> \<not> is_digit (hd []))
      \<and> hdulist_getitem (hdulist example_file) (NameVerKey ''SCI'' (int_of_digits ''1''))
          = Inr example_sci"
    using l2 by (simp add: is_name_char_def is_digit_def)
  have h4: "(\<forall>s. StrSource ''0'' = StrSource s \<longrightarrow>
               \<not> startswith s ''fits:'' \<or> drop 5 s = [] \<or> \<not> is_name_char (hd (drop 5 s)))
      \<and> registry_resolve (StrSource ''0'') (super_state ?reg) =
          (Inr \<lparr>ib_buffer = 4\<rparr>, [\<lparr>ib_buffer = 4\<rparr>])"
    by (simp add: startswith_def registry_resolve_def registry_index_def is_digit_def
          int_of_digits_def digit_val_def)
  from get_block_scheme_prefix
         [where name = "''SCI''" and rest = "''_A''" and st = example_file and h = example_sci
            and sgb = registry_resolve, THEN conjunct1, THEN mp, OF h1]
  have 1: "\<exists>b. get_block registry_resolve (StrSource ''fits:SCI_A'') example_file =
          (Inr (FitsBlock b), example_file\<lparr>next_id := Suc (next_id example_file)\<rparr>)
        \<and> fb_id b = next_id example_file \<and> fb_hdu b = example_sci
        \<and> hdu_data (fb_hdu b) = hdu_data example_sci"
    by simp
  from get_block_scheme_prefix
         [where name = "''SCI''" and digits = "''1''" and rest = "''junk''" and st = example_file
            and h = example_sci and sgb = registry_resolve,
          THEN conjunct2, THEN conjunct1, THEN mp, OF h2]
  have 2: "\<exists>b. get_block registry_resolve (StrSource ''fits:SCI,1junk'') example_file =
          (Inr (FitsBlock b), example_file\<lparr>next_id := Suc (next_id example_file)\<rparr>)
        \<and> fb_id b = next_id example_file \<and> fb_hdu b = example_sci
        \<and> hdu_data (fb_hdu b) = hdu_data example_sci"
    by simp
  from get_block_scheme_prefix
         [where name = "''SCI''" and digits = "''1''" and rest = "[]" and st = example_file
            and h = example_sci and sgb = registry_resolve,
          THEN conjunct2, THEN conjunct1, THEN mp, OF h3]
  have 3: "\<exists>b. get_block registry_resolve (StrSource ''fits:SCI,1'') example_file =
          (Inr (FitsBlock b), example_file\<lparr>next_id := Suc (next_id example_file)\<rparr>)
        \<and> fb_id b = next_id example_file \<and> fb_hdu b = example_sci
        \<and> hdu_data (fb_hdu b) = hdu_data example_sci"
    by simp
  from get_block_scheme_prefix
         [where source = "StrSource ''0''" and st = ?reg and sgb = registry_resolve
            and r = "Inr \<lparr>ib_buffer = 4\<rparr>" and s' = "[\<lparr>ib_buffer = 4\<rparr>]",
          THEN conjunct2, THEN conjunct2, THEN mp, OF h4]
  have 4: "get_block registry_resolve (StrSource ''0'') ?reg =
      (Inr (BaseBlock \<lparr>ib_buffer = 4\<rparr>), ?reg)"
    by simp
  from 1 2 3 4 show ?thesis by blast
qed

text \<open>
  C2 as stated fails for a string that starts with \<^verbatim>\<open>fits:\<close> and a name but does
  not have the form \<^verbatim>\<open>fits:NAME[,VERSION]\<close>: it is not handed to the base manager.
  \<^verbatim>\<open>fits:SCI,\<close> and \<^verbatim>\<open>fits:SCI,1.5\<close> give a block around the section \<^verbatim>\<open>SCI\<close>,
  where the base registry of the spec raises AddressError for both.
\<close>

theorem get_block_scheme_source_counterexample:
  "get_block registry_resolve (StrSource ''fits:SCI,'') example_file
     = (Inr (FitsBlock \<lparr>fb_id = 10, fb_hdu = example_sci\<rparr>), example_file\<lparr>next_id := 11\<rparr>)
   \<and> registry_resolve (StrSource ''fits:SCI,'') (super_state example_file)
     = (Inl AddressError, super_state example_file)
   \<and> get_block registry_resolve (StrSource ''fits:SCI,1.5'') example_file
     = (Inr (FitsBlock \<lparr>fb_id = 10, fb_hdu = example_sci\<rparr>), example_file\<lparr>next_id := 11\<rparr>)
   \<and> registry_resolve (StrSource ''fits:SCI,1.5'') (super_state example_file)
     = (Inl AddressError, super_state example_file)"
  by (simp add: get_block_def example_file_def example_primary_def example_sci_def
        startswith_def re_match_parts_def is_name_char_def is_digit_def hdulist_getitem_def
        new_FitsBlock_def int_of_digits_1 registry_resolve_def)

text \<open>
  C8 (as amended). A source \<^verbatim>\<open>fits:NAME\<close> or \<^verbatim>\<open>fits:NAME,VERSION\<close> of the right
  form, for which the host container has no section of that name, or of that name and
  version, makes \<^verbatim>\<open>get_block\<close> raise the \<^verbatim>\<open>KeyError\<close> of the host container's
  lookup: it is neither caught nor turned into another error, and the state is as it
  was. An integer source goes to the base manager; with the base registry of the spec,
  an integer below zero or not below the number of internal blocks raises
  AddressError.
\<close>

theorem get_block_missing_raises:
  "(name \<noteq> [] \<and> list_all is_name_char name
      \<and> (\<forall>h \<in> set (hdulist st). hdu_name h \<noteq> name) \<longrightarrow>
      get_block sgb (StrSource (''fits:'' @ name)) st = (Inl KeyError, st))
   \<and> (name \<noteq> [] \<and> list_all is_name_char name \<and> digits \<noteq> [] \<and> list_all is_digit digits
      \<and> (\<forall>h \<in> set (hdulist st). \<not> (hdu_name h = name \<and> hdu_ver h = int_of_digits digits)) \<longrightarrow>
      get_block sgb (StrSource (''fits:'' @ name @ '','' @ digits)) st = (Inl KeyError, st))
   \<and> (i < 0 \<or> int (length (super_state rst)) \<le> i \<longrightarrow>
      get_block registry_resolve (IntSource i) rst = (Inl AddressError, rst))"
proof (intro conjI impI)
  assume a: "name \<noteq> [] \<and> list_all is_name_char name
      \<and> (\<forall>h \<in> set (hdulist st). hdu_name h \<noteq> name)"
  then have m: "re_match_parts name = Some (name, None)"
    by (simp add: re_match_parts_name)
  from a have "hdulist_getitem (hdulist st) (NameKey name) = Inl KeyError"
    by (intro hdulist_getitem_absent) simp
  then have "hdulist_getitem (hdulist st)
      (case None of Some v \<Rightarrow> NameVerKey name (int_of_digits v) | None \<Rightarrow> NameKey name)
      = Inl KeyError"
    by simp
  from get_block_matched_error [OF m this]
  show "get_block sgb (StrSource (''fits:'' @ name)) st = (Inl KeyError, st)" .
next
  assume a: "name \<noteq> [] \<and> list_all is_name_char name \<and> digits \<noteq> [] \<and> list_all is_digit digits
      \<and> (\<forall>h \<in> set (hdulist st). \<not> (hdu_name h = name \<and> hdu_ver h = int_of_digits digits))"
  then have m: "re_match_parts (name @ CHR '','' # digits) = Some (name, Some digits)"
    by (simp add: re_match_parts_name_ver)
  from a have "hdulist_getitem (hdulist st) (NameVerKey name (int_of_digits digits)) = Inl KeyError"
    by (intro hdulist_getitem_absent) simp
  then have "hdulist_getitem (hdulist st)
      (case Some digits of Some v \<Rightarrow> NameVerKey name (int_of_digits v) | None \<Rightarrow> NameKey name)
      = Inl KeyError"
    by simp
  from get_block_matched_error [OF m this]
  show "get_block sgb (StrSource (''fits:'' @ name @ '','' @ digits)) st = (Inl KeyError, st)"
    by simp
next
  assume "i < 0 \<or> int (length (super_state rst)) \<le> i"
  then have "registry_resolve (IntSource i) (super_state rst) = (Inl AddressError, super_state rst)"
    by (auto simp: registry_resolve_def registry_index_def)
  then show "get_block registry_resolve (IntSource i) rst = (Inl AddressError, rst)"
    by (simp add: get_block_def call_super_def)
qed

theorem get_block_missing_raises_witness:
  "get_block registry_resolve (StrSource ''fits:MISSING'') example_file
     = (Inl KeyError, example_file)
   \<and> get_block registry_resolve (StrSource ''fits:MISSING,1'') example_file
     = (Inl KeyError, example_file)
   \<and> get_block registry_resolve (IntSource 5)
       (example_file\<lparr>super_state := [\<lparr>ib_buffer = 4\<rparr>, \<lparr>ib_buffer = 6\<rparr>]\<rparr>)
     = (Inl AddressError, example_file\<lparr>super_state := [\<lparr>ib_buffer = 4\<rparr>, \<lparr>ib_buffer = 6\<rparr>]\<rparr>)"
proof -
  let ?rst = "example_file\<lparr>super_state := [\<lparr>ib_buffer = 4\<rparr>, \<lparr>ib_buffer = 6\<rparr>]\<rparr>"
  have h0: "''MISSING'' \<noteq> [] \<and> list_all is_name_char ''MISSING''
      \<and> (\<forall>h \<in> set (hdulist example_file). hdu_name h \<noteq> ''MISSING'')"
    by (simp add: is_name_char_def is_digit_def example_file_def example_primary_def
          example_sci_def)
  have h1: "''MISSING'' \<noteq> [] \<and> list_all is_name_char ''MISSING'' \<and> ''1'' \<noteq> []
      \<and> list_all is_digit ''1''
      \<and> (\<forall>h \<in> set (hdulist example_file).
            \<not> (hdu_name h = ''MISSING'' \<and> hdu_ver h = int_of_digits ''1''))"
    by (simp add: is_name_char_def is_digit_def example_file_def example_primary_def
          example_sci_def)
  have h2: "(5::int) < 0 \<or> int (length (super_state ?rst)) \<le> 5"
    by simp
  note t = get_block_missing_raises
         [where name = "''MISSING''" and digits = "''1''" and st = example_file
            and sgb = registry_resolve and i = 5 and rst = ?rst]
  from t [THEN conjunct1, THEN mp, OF h0] t [THEN conjunct2, THEN conjunct1, THEN mp, OF h1]
    t [THEN conjunct2, THEN conjunct2, THEN mp, OF h2]
  show ?thesis by simp
qed

text \<open>
  C8 as stated fails in the kind of the error: for \<^verbatim>\<open>fits:MISSING,1\<close> the caller gets
  the \<^verbatim>\<open>KeyError\<close> of the host container, not the AddressError of the registry.
\<close>

theorem get_block_missing_counterexample:
  "get_block registry_resolve (StrSource ''fits:MISSING,1'') example_file
     = (Inl KeyError, example_file)
   \<and> KeyError \<noteq> AddressError"
  by (simp add: get_block_def example_file_def example_primary_def example_sci_def
        startswith_def re_match_parts_def is_name_char_def is_digit_def hdulist_getitem_def
        int_of_digits_1)

text \<open>
  C4 (as amended). For an array that is not an \<^verbatim>\<open>NDArrayType\<close> instance and whose
  base (what \<^verbatim>\<open>util.get_array_base\<close> returns) is the data array object of some
  section of the host container, \<^verbatim>\<open>find_or_create_block_for_array\<close> returns a new
  wrapper block around the first such section of the host container; the base manager
  is not called, so its state, and with it the internal blocks, stays as it was; and
  the source of the wrapper is a reference \<^verbatim>\<open>fits:NAME,VERSION\<close> to the section with
  that identity. For every other array it returns what the base manager returns: for
  an \<^verbatim>\<open>NDArrayType\<close> instance, and for an array whose base is the data array object
  of no section, also when it shares the buffer of a section whose data array is a
  view of another array.
\<close>

theorem find_or_create_host_alias:
  "(\<not> av_is_NDArrayType arr \<and> (\<exists>h \<in> set (hdulist st). arr_id (hdu_data h) = av_base arr) \<longrightarrow>
      (\<exists>b i h'. find_or_create_block_for_array sfc arr ctx st =
               (Inr (FitsBlock b), st\<lparr>next_id := Suc (next_id st)\<rparr>)
           \<and> fb_id b = next_id st
           \<and> i < length (hdulist st) \<and> fb_hdu b = hdulist st ! i
           \<and> arr_id (hdu_data (fb_hdu b)) = av_base arr
           \<and> (\<forall>j < i. arr_id (hdu_data (hdulist st ! j)) \<noteq> av_base arr)
           \<and> h' \<in> set (hdulist st) \<and> hdu_id h' = hdu_id (fb_hdu b)
           \<and> get_source sgs (FitsBlock b) (st\<lparr>next_id := Suc (next_id st)\<rparr>) =
               (Inr (StrSource (''fits:'' @ hdu_name h' @ '','' @ str_of_int (hdu_ver h'))),
                st\<lparr>next_id := Suc (next_id st)\<rparr>)))
   \<and> ((av_is_NDArrayType arr \<or> (\<forall>h \<in> set (hdulist st). arr_id (hdu_data h) \<noteq> av_base arr))
        \<and> sfc arr ctx (super_state st) = (r, s') \<longrightarrow>
      find_or_create_block_for_array sfc arr ctx st =
        (map_sum id BaseBlock r, st\<lparr>super_state := s'\<rparr>))"
proof (intro conjI impI)
  assume a: "\<not> av_is_NDArrayType arr \<and> (\<exists>h \<in> set (hdulist st). arr_id (hdu_data h) = av_base arr)"
  then obtain h where h: "find (\<lambda>h. av_base arr = arr_id (hdu_data h)) (hdulist st) = Some h"
    by (cases "find (\<lambda>h. av_base arr = arr_id (hdu_data h)) (hdulist st)")
       (auto simp: find_None_all)
  let ?b = "\<lparr>fb_id = next_id st, fb_hdu = h\<rparr>"
  let ?st = "st\<lparr>next_id := Suc (next_id st)\<rparr>"
  from h [unfolded find_Some_iff]
  obtain i where i0: "i < length (hdulist st)"
    "av_base arr = arr_id (hdu_data (hdulist st ! i))" "h = hdulist st ! i"
    "\<forall>j < i. \<not> av_base arr = arr_id (hdu_data (hdulist st ! j))"
    by blast
  then have i: "i < length (hdulist st)" "h = hdulist st ! i"
    "av_base arr = arr_id (hdu_data h)"
    "\<forall>j < i. arr_id (hdu_data (hdulist st ! j)) \<noteq> av_base arr"
    by auto
  from a h have r: "find_or_create_block_for_array sfc arr ctx st = (Inr (FitsBlock ?b), ?st)"
    by (simp add: find_or_create_block_for_array_def new_FitsBlock_def)
  from i have "h \<in> set (hdulist ?st)" "hdu_id h = hdu_id (fb_hdu ?b)"
    by simp_all
  from get_source_present [OF this, of sgs]
  obtain h' where h': "h' \<in> set (hdulist st)" "hdu_id h' = hdu_id (fb_hdu ?b)"
    "get_source sgs (FitsBlock ?b) ?st =
       (Inr (StrSource (''fits:'' @ hdu_name h' @ '','' @ str_of_int (hdu_ver h'))), ?st)"
    by auto
  have "find_or_create_block_for_array sfc arr ctx st = (Inr (FitsBlock ?b), ?st)
      \<and> fb_id ?b = next_id st \<and> i < length (hdulist st) \<and> fb_hdu ?b = hdulist st ! i
      \<and> arr_id (hdu_data (fb_hdu ?b)) = av_base arr
      \<and> (\<forall>j < i. arr_id (hdu_data (hdulist st ! j)) \<noteq> av_base arr)
      \<and> h' \<in> set (hdulist st) \<and> hdu_id h' = hdu_id (fb_hdu ?b)
      \<and> get_source sgs (FitsBlock ?b) ?st =
          (Inr (StrSource (''fits:'' @ hdu_name h' @ '','' @ str_of_int (hdu_ver h'))), ?st)"
    using r i h' by simp
  then show "\<exists>b i h'. find_or_create_block_for_array sfc arr ctx st =
               (Inr (FitsBlock b), st\<lparr>next_id := Suc (next_id st)\<rparr>)
           \<and> fb_id b = next_id st
           \<and> i < length (hdulist st) \<and> fb_hdu b = hdulist st ! i
           \<and> arr_id (hdu_data (fb_hdu b)) = av_base arr
           \<and> (\<forall>j < i. arr_id (hdu_data (hdulist st ! j)) \<noteq> av_base arr)
           \<and> h' \<in> set (hdulist st) \<and> hdu_id h' = hdu_id (fb_hdu b)
           \<and> get_source sgs (FitsBlock b) (st\<lparr>next_id := Suc (next_id st)\<rparr>) =
               (Inr (StrSource (''fits:'' @ hdu_name h' @ '','' @ str_of_int (hdu_ver h'))),
                st\<lparr>next_id := Suc (next_id st)\<rparr>)"
    by (intro exI [of _ ?b] exI [of _ i] exI [of _ h'])
next
  assume a: "(av_is_NDArrayType arr \<or> (\<forall>h \<in> set (hdulist st). arr_id (hdu_data h) \<noteq> av_base arr))
        \<and> sfc arr ctx (super_state st) = (r, s')"
  show "find_or_create_block_for_array sfc arr ctx st =
        (map_sum id BaseBlock r, st\<lparr>super_state := s'\<rparr>)"
  proof (cases "av_is_NDArrayType arr")
    case True
    with a show ?thesis
      by (simp add: find_or_create_block_for_array_def call_super_def)
  next
    case False
    with a have "find (\<lambda>h. av_base arr = arr_id (hdu_data h)) (hdulist st) = None"
      by (auto simp: find_None_all)
    with a False show ?thesis
      by (simp add: find_or_create_block_for_array_def call_super_def)
  qed
qed

theorem find_or_create_host_alias_witness:
  "(\<exists>b i h'. find_or_create_block_for_array registry_find_or_create
              \<lparr>av_is_NDArrayType = False, av_base = 3\<rparr> () example_file =
               (Inr (FitsBlock b), example_file\<lparr>next_id := Suc (next_id example_file)\<rparr>)
           \<and> fb_id b = next_id example_file
           \<and> i < length (hdulist example_file) \<and> fb_hdu b = hdulist example_file ! i
           \<and> arr_id (hdu_data (fb_hdu b)) = 3
           \<and> (\<forall>j < i. arr_id (hdu_data (hdulist example_file ! j)) \<noteq> 3)
           \<and> h' \<in> set (hdulist example_file) \<and> hdu_id h' = hdu_id (fb_hdu b)
           \<and> get_source registry_identify (FitsBlock b)
                (example_file\<lparr>next_id := Suc (next_id example_file)\<rparr>) =
               (Inr (StrSource (''fits:'' @ hdu_name h' @ '','' @ str_of_int (hdu_ver h'))),
                example_file\<lparr>next_id := Suc (next_id example_file)\<rparr>))
   \<and> find_or_create_block_for_array registry_find_or_create
        \<lparr>av_is_NDArrayType = False, av_base = 40\<rparr> () example_file
      = (Inr (BaseBlock \<lparr>ib_buffer = 40\<rparr>), example_file\<lparr>super_state := [\<lparr>ib_buffer = 40\<rparr>]\<rparr>)"
proof -
  let ?a = "\<lparr>av_is_NDArrayType = False, av_base = 3\<rparr>"
  let ?o = "\<lparr>av_is_NDArrayType = False, av_base = 40\<rparr>"
  have h1: "\<not> av_is_NDArrayType ?a
      \<and> (\<exists>h \<in> set (hdulist example_file). arr_id (hdu_data h) = av_base ?a)"
    by (simp add: example_file_def example_sci_def)
  have h2: "(av_is_NDArrayType ?o
        \<or> (\<forall>h \<in> set (hdulist example_file). arr_id (hdu_data h) \<noteq> av_base ?o))
      \<and> registry_find_or_create ?o () (super_state example_file) =
          (Inr \<lparr>ib_buffer = 40\<rparr>, [\<lparr>ib_buffer = 40\<rparr>])"
    by (simp add: example_file_def example_sci_def example_primary_def
          registry_find_or_create_def)
  from find_or_create_host_alias
         [where arr = ?a and st = example_file and sfc = registry_find_or_create and ctx = "()"
            and sgs = registry_identify, THEN conjunct1, THEN mp, OF h1]
  have 1: "\<exists>b i h'. find_or_create_block_for_array registry_find_or_create ?a () example_file =
               (Inr (FitsBlock b), example_file\<lparr>next_id := Suc (next_id example_file)\<rparr>)
           \<and> fb_id b = next_id example_file
           \<and> i < length (hdulist example_file) \<and> fb_hdu b = hdulist example_file ! i
           \<and> arr_id (hdu_data (fb_hdu b)) = 3
           \<and> (\<forall>j < i. arr_id (hdu_data (hdulist example_file ! j)) \<noteq> 3)
           \<and> h' \<in> set (hdulist example_file) \<and> hdu_id h' = hdu_id (fb_hdu b)
           \<and> get_source registry_identify (FitsBlock b)
                (example_file\<lparr>next_id := Suc (next_id example_file)\<rparr>) =
               (Inr (StrSource (''fits:'' @ hdu_name h' @ '','' @ str_of_int (hdu_ver h'))),
                example_file\<lparr>next_id := Suc (next_id example_file)\<rparr>)"
    by simp
  from find_or_create_host_alias
         [where arr = ?o and st = example_file and sfc = registry_find_or_create and ctx = "()"
            and r = "Inr \<lparr>ib_buffer = 40\<rparr>" and s' = "[\<lparr>ib_buffer = 40\<rparr>]",
          THEN conjunct2, THEN mp, OF h2]
  have 2: "find_or_create_block_for_array registry_find_or_create ?o () example_file =
      (Inr (BaseBlock \<lparr>ib_buffer = 40\<rparr>), example_file\<lparr>super_state := [\<lparr>ib_buffer = 40\<rparr>]\<rparr>)"
    by simp
  from 1 2 show ?thesis by simp
qed

text \<open>
  C4 as stated fails in two ways. An \<^verbatim>\<open>NDArrayType\<close> instance is sent to the base
  manager by the guard \<^verbatim>\<open>if not isinstance(arr, ndarray.NDArrayType)\<close> before the
  host container is looked at: with the base registry of the spec, an instance whose
  base is the data array of the section \<^verbatim>\<open>SCI\<close> gets a new internal block. And the
  test \<^verbatim>\<open>base is hdu.data\<close> compares the base of the array with the data array
  object of the section, not with its buffer identity: for the section \<^verbatim>\<open>VIEW\<close>,
  whose data array 15 is a view with the base 16, an array with the base 16 has the
  buffer identity of the section's data and gets a new internal block as well.
\<close>

theorem find_or_create_host_alias_counterexample:
  "(arr_id (hdu_data example_sci) = av_base \<lparr>av_is_NDArrayType = True, av_base = 3\<rparr>
    \<and> example_sci \<in> set (hdulist example_file)
    \<and> find_or_create_block_for_array registry_find_or_create
         \<lparr>av_is_NDArrayType = True, av_base = 3\<rparr> () example_file
       = (Inr (BaseBlock \<lparr>ib_buffer = 3\<rparr>), example_file\<lparr>super_state := [\<lparr>ib_buffer = 3\<rparr>]\<rparr>))
   \<and> (arr_base (hdu_data example_view) = av_base \<lparr>av_is_NDArrayType = False, av_base = 16\<rparr>
    \<and> example_view \<in> set (hdulist example_viewed)
    \<and> find_or_create_block_for_array registry_find_or_create
         \<lparr>av_is_NDArrayType = False, av_base = 16\<rparr> () example_viewed
       = (Inr (BaseBlock \<lparr>ib_buffer = 16\<rparr>),
          example_viewed\<lparr>super_state := [\<lparr>ib_buffer = 16\<rparr>]\<rparr>))"
  by (simp add: find_or_create_block_for_array_def registry_find_or_create_def call_super_def
        example_file_def example_sci_def example_viewed_def example_view_def
        example_primary_def)




end
